theory Spec2Isabelle
  imports Complex_Main "HOL-Library.Sublist"
begin

section \<open>Data model (src/rag/database.ts, src/rag/service.ts)\<close>

text \<open>
  JavaScript strings are sequences of UTF-16 code units; \<open>length\<close> and \<open>slice\<close> count
  code units. A string is modelled as a \<open>char list\<close> whose elements stand for code
  units, so \<open>length\<close> and \<open>take\<close> are the source's \<open>.length\<close> and \<open>.slice(0, n)\<close>.
  JavaScript numbers that hold lengths and budgets are modelled as \<open>int\<close>: the
  arithmetic on them is exact.
\<close>

section \<open>JavaScript numbers: distances and relevance scores\<close>

text \<open>
  A distance or a relevance score is an IEEE 754 double. It is modelled by the real
  number it denotes; comparing two doubles is comparing these reals. An arithmetic
  operation yields the exact result rounded to a double, and a decimal literal such as
  \<open>0.3\<close> denotes the double its value rounds to. The rounding is the parameter \<open>rnd\<close>
  of the model. The literals \<open>0\<close>, \<open>1\<close> and \<open>0.25\<close> are doubles and denote
  themselves.
\<close>

type_synonym Rounding = "real \<Rightarrow> real"

text \<open>
  The finite doubles: a significand below \<open>2^53\<close> in magnitude, scaled by a power of two
  from \<open>2^-1074\<close> to \<open>2^971\<close>.
\<close>

definition doubles :: "real set" where
  "doubles = {real_of_int m * 2 ^ k / 2 ^ 1074 | m k. \<bar>m\<bar> < 2 ^ 53 \<and> k \<le> (2045::nat)}"

text \<open>\<open>y\<close> is a double nearest to \<open>x\<close>: what a correctly rounded operation returns.\<close>

definition nearest_double :: "real \<Rightarrow> real \<Rightarrow> bool" where
  "nearest_double x y = (y \<in> doubles \<and> (\<forall>z\<in>doubles. \<bar>y - x\<bar> \<le> \<bar>z - x\<bar>))"

text \<open>\<open>LoreCategory\<close>: the closed union of string literals of database.ts.\<close>

datatype LoreCategory =
  Any | Character | Location | Creature | Item | Event | Organization | Deity | Spell | General

fun category_str :: "LoreCategory \<Rightarrow> string" where
  "category_str Any = ''any''"
| "category_str Character = ''character''"
| "category_str Location = ''location''"
| "category_str Creature = ''creature''"
| "category_str Item = ''item''"
| "category_str Event = ''event''"
| "category_str Organization = ''organization''"
| "category_str Deity = ''deity''"
| "category_str Spell = ''spell''"
| "category_str General = ''general''"

text \<open>\<open>interface LoreResult\<close> (database.ts).\<close>

record LoreResult =
  "text" :: string
  title :: string
  type :: string
  relevance :: real
  url :: "string option"

text \<open>\<open>interface LoreContext\<close> (service.ts).\<close>

record LoreContext =
  "text" :: string
  sourceCount :: int
  sources :: "string list"

section \<open>Context packing: \<open>RAGService.buildContext\<close>\<close>

definition nl :: string where
  "nl = [CHR 0x0A]"

text \<open>The initial value of \<open>contextText\<close>: the header line and a blank line.\<close>

definition header :: string where
  "header = ''## Relevant Warhammer Lore'' @ nl @ nl"

text \<open>The template literal \<open>`### ${result.title}\n${result.text}\n\n`\<close>.\<close>

definition format_entry :: "LoreResult \<Rightarrow> string" where
  "format_entry result =
     ''### '' @ title result @ nl @ LoreResult.text result @ nl @ nl"

text \<open>
  The template literal \<open>`### ${result.title}\n${result.text.slice(0, available)}...\n\n`\<close>.
  It is only built when \<open>available > 200\<close>, where \<open>slice(0, available)\<close> keeps the
  first \<open>available\<close> code units.
\<close>

definition truncated_entry :: "LoreResult \<Rightarrow> int \<Rightarrow> string" where
  "truncated_entry result available =
     ''### '' @ title result @ nl @ take (nat available) (LoreResult.text result)
       @ ''...'' @ nl @ nl"

text \<open>
  The \<open>for (const result of results)\<close> loop with its \<open>break\<close>. The loop state is
  \<open>(contextText, currentLength, sources)\<close>; the value is the final
  \<open>(contextText, sources)\<close>.
\<close>

fun buildContext_loop ::
  "LoreResult list \<Rightarrow> int \<Rightarrow> string \<times> int \<times> string list \<Rightarrow> string \<times> string list" where
  "buildContext_loop [] maxLength (contextText, currentLength, srcs) = (contextText, srcs)"
| "buildContext_loop (result # rest) maxLength (contextText, currentLength, srcs) =
     (let entry = format_entry result in
      if currentLength + int (length entry) > maxLength then
        (let available = maxLength - currentLength - 50 in
         if available > 200 then
           (contextText @ truncated_entry result available, srcs @ [title result])
         else (contextText, srcs))
      else
        buildContext_loop rest maxLength
          (contextText @ entry, currentLength + int (length entry), srcs @ [title result]))"

text \<open>
  \<open>buildContext(results, maxLength)\<close>. The parameter's default of 2000 stands for an
  absent argument; \<open>searchWithContext\<close> and \<open>getContextForSituation\<close>, the callers in
  the repository, always pass the argument.
\<close>

definition buildContext :: "LoreResult list \<Rightarrow> int \<Rightarrow> LoreContext" where
  "buildContext results maxLength =
     (if length results = 0 then
        \<lparr>text = '''', sourceCount = 0, sources = []\<rparr>
      else
        (let (contextText, srcs) =
               buildContext_loop results maxLength (header, int (length header), [])
         in \<lparr>text = contextText, sourceCount = int (length srcs), sources = srcs\<rparr>))"

text \<open>The length of the longest title among the results (0 for no results).\<close>

primrec longest_title :: "LoreResult list \<Rightarrow> int" where
  "longest_title [] = 0"
| "longest_title (r # rs) = max (int (length (title r))) (longest_title rs)"

section \<open>External collaborators: embedding model and ChromaDB collection\<close>

text \<open>
  The embedding model and the ChromaDB client are libraries outside the repository. They
  are parameters of the model. A call that throws is the value \<open>Inl message\<close>.
  ChromaDB metadata is a dictionary; every value the repository stores in it is a
  string (\<open>addDocuments\<close>).
\<close>

type_synonym Metadata = "string \<rightharpoonup> string"

type_synonym Embedder = "string \<Rightarrow> string + real list"

datatype IncludeEnum = documents | metadatas | distances

text \<open>
  The argument of \<open>collection.query\<close>. The field \<open>where\<close> holds the \<open>type\<close> of the
  clause \<open>{ type: category }\<close>, or \<open>None\<close> when the key is absent.
\<close>

record QueryOptions =
  queryEmbeddings :: "real list list"
  nResults :: int
  "include" :: "IncludeEnum list"
  "where" :: "string option"

text \<open>
  The value of \<open>collection.query\<close>: one inner list per query embedding. \<open>None\<close> is
  JavaScript's \<open>null\<close> or \<open>undefined\<close>.
\<close>

record QueryResponse =
  documents :: "string option list list option"
  metadatas :: "Metadata option list list option"
  distances :: "real option list list option"

text \<open>The value of \<open>collection.get\<close>.\<close>

record GetResponse =
  documents :: "string option list option"
  metadatas :: "Metadata option list option"

text \<open>
  A collection handle. \<open>get\<close> takes the title of the clause
  \<open>where: { title: title }\<close>; its \<open>include\<close> list is constant.
\<close>

record Collection =
  query :: "QueryOptions \<Rightarrow> string + QueryResponse"
  get :: "string \<Rightarrow> string + GetResponse"
  count :: "string + int"

record ChromaClient =
  getOrCreateCollection :: "string + Collection"

section \<open>Errors, call traces and JavaScript helpers\<close>

text \<open>
  \<open>NotInitialized\<close> carries the message of the \<open>Error\<close> thrown by a guard of the
  repository; \<open>UpstreamError\<close> is an exception of a collaborator, passed on unchanged.
\<close>

datatype error = NotInitialized string | UpstreamError string

text \<open>The calls made to the collaborators on the query path, in order.\<close>

datatype call = EmbedCall string | QueryCall QueryOptions | GetCall string

text \<open>An asynchronous operation: the calls it made, and its error or value.\<close>

type_synonym 'a io = "call list \<times> (error + 'a)"

definition io_return :: "'a \<Rightarrow> 'a io" where
  "io_return x = ([], Inr x)"

definition io_throw :: "error \<Rightarrow> 'a io" where
  "io_throw e = ([], Inl e)"

text \<open>\<open>await m\<close> followed by the rest of the function; an exception skips the rest.\<close>

definition io_bind :: "'a io \<Rightarrow> ('a \<Rightarrow> 'b io) \<Rightarrow> 'b io" where
  "io_bind m f =
     (case m of
        (t, Inl e) \<Rightarrow> (t, Inl e)
      | (t, Inr x) \<Rightarrow> (case f x of (t', r) \<Rightarrow> (t @ t', r)))"

definition upstream :: "call \<Rightarrow> string + 'a \<Rightarrow> 'a io" where
  "upstream c reply =
     ([c], case reply of Inl msg \<Rightarrow> Inl (UpstreamError msg) | Inr v \<Rightarrow> Inr v)"

text \<open>\<open>xs[i]\<close>: \<open>undefined\<close> out of range.\<close>

definition nth_opt :: "'a list \<Rightarrow> nat \<Rightarrow> 'a option" where
  "nth_opt xs i = (if i < length xs then Some (xs ! i) else None)"

text \<open>\<open>s || d\<close> for a string or \<open>undefined\<close>: the empty string is falsy.\<close>

definition str_or :: "string option \<Rightarrow> string \<Rightarrow> string" where
  "str_or s d = (case s of None \<Rightarrow> d | Some v \<Rightarrow> if v = [] then d else v)"

text \<open>\<open>s || undefined\<close>.\<close>

definition str_or_undefined :: "string option \<Rightarrow> string option" where
  "str_or_undefined s = (case s of None \<Rightarrow> None | Some v \<Rightarrow> if v = [] then None else Some v)"

text \<open>\<open>x || d\<close> for a number or \<open>undefined\<close>: zero is falsy.\<close>

definition num_or :: "'a::zero option \<Rightarrow> 'a \<Rightarrow> 'a" where
  "num_or x d = (case x of None \<Rightarrow> d | Some v \<Rightarrow> if v = 0 then d else v)"

text \<open>A destructuring default \<open>{ x = d }\<close>: only \<open>undefined\<close> takes the default.\<close>

definition default_to :: "'a option \<Rightarrow> 'a \<Rightarrow> 'a" where
  "default_to x d = (case x of None \<Rightarrow> d | Some v \<Rightarrow> v)"

text \<open>\<open>meta?.key\<close>.\<close>

definition meta_field :: "Metadata option \<Rightarrow> string \<Rightarrow> string option" where
  "meta_field meta k = (case meta of None \<Rightarrow> None | Some m \<Rightarrow> m k)"

text \<open>\<open>Array.prototype.join\<close> on strings.\<close>

fun join :: "string \<Rightarrow> string list \<Rightarrow> string" where
  "join sep [] = []"
| "join sep [x] = x"
| "join sep (x # y # ys) = x @ sep @ join sep (y # ys)"

section \<open>The repository: \<open>LoreDatabase\<close> (src/rag/database.ts)\<close>

record LoreDatabase =
  collection :: "Collection option"
  initialized :: bool

definition new_LoreDatabase :: LoreDatabase where
  "new_LoreDatabase = \<lparr>collection = None, initialized = False\<rparr>"

text \<open>
  \<open>LoreDatabase.initialize\<close>. The collection is stored before its count is read, so a
  failing \<open>count\<close> leaves the collection set and the flag unset.
\<close>

definition LoreDatabase_initialize ::
  "ChromaClient \<Rightarrow> LoreDatabase \<Rightarrow> (error + unit) \<times> LoreDatabase" where
  "LoreDatabase_initialize client d =
     (if LoreDatabase.initialized d then (Inr (), d)
      else
        (case getOrCreateCollection client of
           Inl msg \<Rightarrow> (Inl (UpstreamError msg), d)
         | Inr c \<Rightarrow>
             (let d1 = d\<lparr>collection := Some c\<rparr> in
              case count c of
                Inl msg \<Rightarrow> (Inl (UpstreamError msg), d1)
              | Inr n \<Rightarrow> (Inr (), d1\<lparr>LoreDatabase.initialized := True\<rparr>))))"

definition LoreDatabase_isInitialized :: "LoreDatabase \<Rightarrow> bool" where
  "LoreDatabase_isInitialized d = LoreDatabase.initialized d"

definition db_not_initialized :: error where
  "db_not_initialized = NotInitialized ''Database not initialized. Call initialize() first.''"

text \<open>
  The body of the transform loop of \<open>LoreDatabase.search\<close> at index \<open>i\<close>, where
  \<open>doc\<close> is \<open>results.documents[0][i]\<close>: the metadata and the distance read at
  \<open>i\<close>, and the result that is pushed when its relevance reaches the floor.
\<close>

definition hit_meta :: "QueryResponse \<Rightarrow> nat \<Rightarrow> Metadata option" where
  "hit_meta results i =
     (case QueryResponse.metadatas results of
        None \<Rightarrow> None
      | Some ms \<Rightarrow>
          (case nth_opt ms 0 of
             None \<Rightarrow> None
           | Some m0 \<Rightarrow> (case nth_opt m0 i of None \<Rightarrow> None | Some meta \<Rightarrow> meta)))"

definition hit_distance :: "QueryResponse \<Rightarrow> nat \<Rightarrow> real" where
  "hit_distance results i =
     num_or
       (case distances results of
          None \<Rightarrow> None
        | Some ds \<Rightarrow>
            (case nth_opt ds 0 of
               None \<Rightarrow> None
             | Some d0 \<Rightarrow> (case nth_opt d0 i of None \<Rightarrow> None | Some d \<Rightarrow> d)))
       0"

definition hit_result :: "Rounding \<Rightarrow> QueryResponse \<Rightarrow> string option \<Rightarrow> nat \<Rightarrow> LoreResult" where
  "hit_result rnd results doc i =
     (let meta = hit_meta results i;
          distance = hit_distance results i;
          relevance = rnd (1 - distance)
      in \<lparr>LoreResult.text = str_or doc [],
          title = str_or (meta_field meta ''title'') ''Unknown'',
          type = str_or (meta_field meta ''type'') ''general'',
          relevance = relevance,
          url = str_or_undefined (meta_field meta ''url'')\<rparr>)"

text \<open>
  The loop \<open>for (let i = 0; i < results.documents[0].length; i++)\<close>: the documents
  still to visit, the index of the first of them, and \<open>loreResults\<close> so far.
\<close>

fun search_loop ::
  "Rounding \<Rightarrow> QueryResponse \<Rightarrow> real \<Rightarrow> string option list \<Rightarrow> nat \<Rightarrow> LoreResult list
     \<Rightarrow> LoreResult list" where
  "search_loop rnd results minRelevance [] i loreResults = loreResults"
| "search_loop rnd results minRelevance (doc # rest) i loreResults =
     (let r = hit_result rnd results doc i in
      search_loop rnd results minRelevance rest (Suc i)
        (if relevance r \<ge> minRelevance then loreResults @ [r] else loreResults))"

definition transform_results :: "Rounding \<Rightarrow> QueryResponse \<Rightarrow> real \<Rightarrow> LoreResult list" where
  "transform_results rnd results minRelevance =
     (case QueryResponse.documents results of
        None \<Rightarrow> []
      | Some ds \<Rightarrow>
          (case nth_opt ds 0 of
             None \<Rightarrow> []
           | Some docs0 \<Rightarrow> search_loop rnd results minRelevance docs0 0 []))"

text \<open>The \<open>queryOptions\<close> object of \<open>LoreDatabase.search\<close>.\<close>

definition build_queryOptions :: "real list \<Rightarrow> int \<Rightarrow> LoreCategory \<Rightarrow> QueryOptions" where
  "build_queryOptions queryEmbedding limit category =
     (let queryOptions =
            \<lparr>queryEmbeddings = [queryEmbedding],
             nResults = limit,
             include = [IncludeEnum.documents, IncludeEnum.metadatas, IncludeEnum.distances],
             where = None\<rparr>
      in if category \<noteq> Any then queryOptions\<lparr>where := Some (category_str category)\<rparr>
         else queryOptions)"

text \<open>
  \<open>LoreDatabase.search(query, { limit, category, minRelevance })\<close>; an option that is
  \<open>None\<close> is an absent key.
\<close>

definition LoreDatabase_search ::
  "Rounding \<Rightarrow> Embedder \<Rightarrow> LoreDatabase \<Rightarrow> string \<Rightarrow> int option \<Rightarrow> LoreCategory option \<Rightarrow> real option
     \<Rightarrow> LoreResult list io" where
  "LoreDatabase_search rnd embedder d q limit_opt category_opt minRelevance_opt =
     (case collection d of
        None \<Rightarrow> io_throw db_not_initialized
      | Some c \<Rightarrow>
          (let limit = default_to limit_opt 5;
               category = default_to category_opt Any;
               minRelevance = default_to minRelevance_opt (rnd 0.3)
           in io_bind (upstream (EmbedCall q) (embedder q)) (\<lambda>queryEmbedding.
                (let queryOptions = build_queryOptions queryEmbedding limit category in
                 io_bind (upstream (QueryCall queryOptions) (query c queryOptions)) (\<lambda>results.
                   io_return (transform_results rnd results minRelevance))))))"

text \<open>
  \<open>LoreDatabase.getByTitle\<close>. The test \<open>results.documents?.[0]\<close> is falsy for an
  absent list, an empty list, a \<open>null\<close> document and the empty string;
  \<open>first_document\<close> is the document when the test is truthy.
\<close>

definition first_document :: "GetResponse \<Rightarrow> string option" where
  "first_document results =
     str_or_undefined
       (case GetResponse.documents results of
          None \<Rightarrow> None
        | Some ds \<Rightarrow> (case nth_opt ds 0 of None \<Rightarrow> None | Some doc \<Rightarrow> doc))"

definition LoreDatabase_getByTitle :: "LoreDatabase \<Rightarrow> string \<Rightarrow> LoreResult option io" where
  "LoreDatabase_getByTitle d t =
     (case collection d of
        None \<Rightarrow> io_throw db_not_initialized
      | Some c \<Rightarrow>
          io_bind (upstream (GetCall t) (get c t)) (\<lambda>results.
            (case first_document results of
                  Some doc \<Rightarrow>
                    (let meta = (case GetResponse.metadatas results of
                                   None \<Rightarrow> None
                                 | Some ms \<Rightarrow>
                                     (case nth_opt ms 0 of None \<Rightarrow> None | Some m \<Rightarrow> m))
                     in io_return (Some
                          \<lparr>LoreResult.text = doc,
                           title = str_or (meta_field meta ''title'') t,
                           type = str_or (meta_field meta ''type'') ''general'',
                           relevance = 1.0,
                           url = str_or_undefined (meta_field meta ''url'')\<rparr>))
                | None \<Rightarrow> io_return None)))"

section \<open>The retrieval service: \<open>RAGService\<close> (src/rag/service.ts)\<close>

record LoreSearchOptions =
  limit :: "int option"
  category :: "LoreCategory option"
  minRelevance :: "real option"
  includeSummary :: "bool option"

record RAGService =
  db :: LoreDatabase
  initialized :: bool

definition new_RAGService :: RAGService where
  "new_RAGService = \<lparr>db = new_LoreDatabase, initialized = False\<rparr>"

definition RAGService_initialize ::
  "ChromaClient \<Rightarrow> RAGService \<Rightarrow> (error + unit) \<times> RAGService" where
  "RAGService_initialize client s =
     (if RAGService.initialized s then (Inr (), s)
      else
        (case LoreDatabase_initialize client (db s) of
           (Inl e, d) \<Rightarrow> (Inl e, s\<lparr>db := d\<rparr>)
         | (Inr u, d) \<Rightarrow> (Inr (), s\<lparr>db := d, RAGService.initialized := True\<rparr>)))"

definition isReady :: "RAGService \<Rightarrow> bool" where
  "isReady s = (RAGService.initialized s \<and> LoreDatabase_isInitialized (db s))"

definition service_not_initialized :: error where
  "service_not_initialized = NotInitialized ''RAG Service not initialized''"

definition RAGService_search ::
  "Rounding \<Rightarrow> Embedder \<Rightarrow> RAGService \<Rightarrow> string \<Rightarrow> LoreSearchOptions \<Rightarrow> LoreResult list io" where
  "RAGService_search rnd embedder s q options =
     (if \<not> RAGService.initialized s then io_throw service_not_initialized
      else
        (let limit = default_to (limit options) 5;
             category = default_to (category options) Any;
             minRelevance = default_to (minRelevance options) (rnd 0.3)
         in LoreDatabase_search rnd embedder (db s) q (Some limit) (Some category) (Some minRelevance)))"

definition RAGService_getByTitle :: "RAGService \<Rightarrow> string \<Rightarrow> LoreResult option io" where
  "RAGService_getByTitle s t =
     (if \<not> RAGService.initialized s then io_throw service_not_initialized
      else LoreDatabase_getByTitle (db s) t)"

definition no_options :: LoreSearchOptions where
  "no_options = \<lparr>limit = None, category = None, minRelevance = None, includeSummary = None\<rparr>"

text \<open>\<open>RAGService.lookupEntity\<close>; \<open>results[0] ?? null\<close> is the first result or \<open>null\<close>.\<close>

definition lookupEntity ::
  "Rounding \<Rightarrow> Embedder \<Rightarrow> RAGService \<Rightarrow> string \<Rightarrow> LoreCategory option \<Rightarrow> LoreResult option io" where
  "lookupEntity rnd embedder s name category_arg =
     io_bind (RAGService_getByTitle s name) (\<lambda>exact.
       (case exact of
          Some r \<Rightarrow> io_return (Some r)
        | None \<Rightarrow>
            (let searchOptions = no_options\<lparr>limit := Some 1\<rparr>;
                 searchOptions = (case category_arg of
                                    Some c \<Rightarrow> searchOptions\<lparr>category := Some c\<rparr>
                                  | None \<Rightarrow> searchOptions)
             in io_bind (RAGService_search rnd embedder s name searchOptions) (\<lambda>results.
                  io_return (nth_opt results 0)))))"

definition searchWithContext ::
  "Rounding \<Rightarrow> Embedder \<Rightarrow> RAGService \<Rightarrow> string \<Rightarrow> LoreSearchOptions \<Rightarrow> int option \<Rightarrow> LoreContext io" where
  "searchWithContext rnd embedder s q searchOptions maxContextLength_opt =
     (let maxContextLength = default_to maxContextLength_opt 2000 in
      io_bind (RAGService_search rnd embedder s q searchOptions) (\<lambda>results.
        io_return (buildContext results maxContextLength)))"

definition getContextForSituation ::
  "Rounding \<Rightarrow> Embedder \<Rightarrow> RAGService \<Rightarrow> string \<Rightarrow> string list \<Rightarrow> LoreContext io" where
  "getContextForSituation rnd embedder s situation entities =
     (let q = join '' '' (situation # entities) in
      io_bind (RAGService_search rnd embedder s q
                 (no_options\<lparr>limit := Some 5, minRelevance := Some 0.25\<rparr>)) (\<lambda>results.
        io_return (buildContext results 3000)))"

section \<open>The tool boundary: \<open>handleRAGTool\<close>, case \<open>warhammer_context\<close> (src/tools/rag-handlers.ts)\<close>

text \<open>A response \<open>{ content: [{ type: 'text', text }] }\<close>.\<close>

datatype ToolContent = TextContent string

definition formatResponse :: "string \<Rightarrow> ToolContent list" where
  "formatResponse t = [TextContent t]"

fun content_text :: "ToolContent \<Rightarrow> string" where
  "content_text (TextContent t) = t"

text \<open>\<open>error.message\<close> in the handler's \<open>catch\<close>.\<close>

fun error_message :: "error \<Rightarrow> string" where
  "error_message (NotInitialized msg) = msg"
| "error_message (UpstreamError msg) = msg"

definition no_lore_message :: string where
  "no_lore_message =
     ''No relevant lore found for this situation.'' @ nl @ nl @
     ''Consider using warhammer_lore_search with specific keywords from the situation.''"

text \<open>
  The arguments are \<open>args.situation\<close>, \<open>args.entities\<close> and \<open>args.maxLength\<close>; the last
  two may be absent. The \<open>try\<close>/\<open>catch\<close> around the switch turns every exception into
  an error response.
\<close>

definition handleRAGTool_warhammer_context ::
  "Rounding \<Rightarrow> Embedder \<Rightarrow> RAGService \<Rightarrow> string \<Rightarrow> string list option \<Rightarrow> int option
     \<Rightarrow> call list \<times> ToolContent list" where
  "handleRAGTool_warhammer_context rnd embedder s situation entities_arg maxLength_arg =
     (let entities = default_to entities_arg [];
          maxLength = num_or maxLength_arg 2000
      in case getContextForSituation rnd embedder s situation entities of
           (t, Inl e) \<Rightarrow> (t, formatResponse (''**Error:** '' @ error_message e))
         | (t, Inr context) \<Rightarrow>
             (t, if sourceCount context = 0 then formatResponse no_lore_message
                 else formatResponse
                        (LoreContext.text context @ nl @ ''---'' @ nl @ ''*Sources: ''
                           @ join '', '' (sources context) @ ''*'')))"

section \<open>Ingestion: \<open>parseEntry\<close> and the loop of \<open>ingestDataset\<close> (scripts/ingest-lexicanum.ts)\<close>

text \<open>\<open>interface LexicanumEntry\<close> and its \<open>content\<close>; an absent key is \<open>None\<close>.\<close>

record LexicanumContent =
  summary :: "string option"
  description :: "string option"
  "text" :: "string option"

record LexicanumEntry =
  id :: "string option"
  title :: "string option"
  content :: "LexicanumContent option"
  type :: "string option"
  aliases :: "string list option"
  tags :: "string list option"
  url :: "string option"

text \<open>\<open>interface LoreDocument\<close> and its \<open>metadata\<close> (database.ts).\<close>

record LoreDocumentMetadata =
  title :: string
  type :: string
  aliases :: "string list option"
  tags :: "string list option"
  url :: "string option"

record LoreDocument =
  id :: string
  "text" :: string
  metadata :: LoreDocumentMetadata













section \<open>The initialization state machine\<close>

text \<open>
  The states the service and its repository pass through. Besides the completed calls
  of \<open>RAGService.initialize\<close>, the rules follow the assignments of an initialization in
  flight, one per \<open>await\<close>: the collection is stored, then the repository's flag is set,
  then the service's flag.
\<close>

inductive reachable :: "RAGService \<Rightarrow> bool" where
  new: "reachable new_RAGService"
| connected:
    "reachable s \<Longrightarrow> \<not> LoreDatabase.initialized (db s)
       \<Longrightarrow> reachable (s\<lparr>db := (db s)\<lparr>collection := Some c\<rparr>\<rparr>)"
| counted:
    "reachable s \<Longrightarrow> collection (db s) \<noteq> None
       \<Longrightarrow> reachable (s\<lparr>db := (db s)\<lparr>LoreDatabase.initialized := True\<rparr>\<rparr>)"
| ready:
    "reachable s \<Longrightarrow> LoreDatabase.initialized (db s)
       \<Longrightarrow> reachable (s\<lparr>RAGService.initialized := True\<rparr>)"

section \<open>The contract of the index\<close>

text \<open>
  The hits of a query response as the transform loop reads them, for stating what the
  index is expected to return.
\<close>

definition hits :: "QueryResponse \<Rightarrow> string option list" where
  "hits results =
     (case QueryResponse.documents results of
        None \<Rightarrow> []
      | Some ds \<Rightarrow> (case nth_opt ds 0 of None \<Rightarrow> [] | Some docs0 \<Rightarrow> docs0))"

text \<open>The distances the index reports for the first query embedding.\<close>

definition index_distances :: "QueryResponse \<Rightarrow> real list" where
  "index_distances results =
     (case distances results of
        Some (d0 # rest) \<Rightarrow> concat (map (\<lambda>d. case d of None \<Rightarrow> [] | Some x \<Rightarrow> [x]) d0)
      | _ \<Rightarrow> [])"

text \<open>
  Nearest first: the index reports one distance per hit, in non-decreasing order.
\<close>

definition nearest_first :: "QueryResponse \<Rightarrow> bool" where
  "nearest_first results =
     (case distances results of
        Some (d0 # rest) \<Rightarrow>
          d0 = map Some (index_distances results)
            \<and> length d0 = length (hits results)
            \<and> sorted (index_distances results)
      | _ \<Rightarrow> False)"

text \<open>An operation is rejected when it throws one of the repository's guard errors.\<close>

definition rejected :: "'a io \<Rightarrow> bool" where
  "rejected r = (case snd r of Inl (NotInitialized msg) \<Rightarrow> True | _ \<Rightarrow> False)"

text \<open>
  The index honours an exact-equality filter: when the query carries a \<open>where\<close> clause,
  every hit has metadata whose \<open>type\<close> is the value of the clause.
\<close>

definition honours_where :: "QueryOptions \<Rightarrow> QueryResponse \<Rightarrow> bool" where
  "honours_where opts results =
     (case where opts of
        None \<Rightarrow> True
      | Some t \<Rightarrow>
          list_all (\<lambda>i. meta_field (hit_meta results i) ''type'' = Some t)
            [0..<length (hits results)])"

section \<open>Greedy packing in closed form\<close>

text \<open>
  What the loop of \<open>buildContext\<close> amounts to, stated without the loop. Packing starts
  at length \<open>cl\<close>. \<open>fits_count\<close> is the number of leading results whose full entries
  fit one after the other.
\<close>

primrec fits_count :: "LoreResult list \<Rightarrow> int \<Rightarrow> int \<Rightarrow> nat" where
  "fits_count [] m cl = 0"
| "fits_count (r # rs) m cl =
     (if cl + int (length (format_entry r)) > m then 0
      else Suc (fits_count rs m (cl + int (length (format_entry r)))))"

text \<open>
  The text added after the start and the results that receive an entry: the results
  that fit in full, followed by a truncated entry for the next result when there is one
  and more than 200 characters remain after the reservation of 50.
\<close>

definition packed_from :: "LoreResult list \<Rightarrow> int \<Rightarrow> int \<Rightarrow> string \<times> LoreResult list" where
  "packed_from rs m cl =
     (let j = fits_count rs m cl;
          body = concat (map format_entry (take j rs));
          available = m - (cl + int (length body)) - 50
      in if j < length rs \<and> available > 200
         then (body @ truncated_entry (rs ! j) available, take (Suc j) rs)
         else (body, take j rs))"

text \<open>The results to which \<open>buildContext\<close> gives an entry, in full or truncated.\<close>

definition appended :: "LoreResult list \<Rightarrow> int \<Rightarrow> LoreResult list" where
  "appended rs m = snd (packed_from rs m (int (length header)))"

definition packed :: "LoreResult list \<Rightarrow> int \<Rightarrow> LoreContext" where
  "packed rs m =
     (if rs = [] then \<lparr>LoreContext.text = [], sourceCount = 0, sources = []\<rparr>
      else \<lparr>LoreContext.text = header @ fst (packed_from rs m (int (length header))),
            sourceCount = int (length (appended rs m)),
            sources = map LoreResult.title (appended rs m)\<rparr>)"

text \<open>
  The candidate results of a query response, before the relevance floor is applied: one
  per hit, in the order of the index.
\<close>

definition candidates :: "Rounding \<Rightarrow> QueryResponse \<Rightarrow> LoreResult list" where
  "candidates rnd results =
     map (\<lambda>(doc, j). hit_result rnd results doc j)
       (zip (hits results) [0..<length (hits results)])"


section \<open>Example data\<close>

definition mk_result :: "string \<Rightarrow> string \<Rightarrow> string \<Rightarrow> real \<Rightarrow> LoreResult" where
  "mk_result ti ty tx rel =
     \<lparr>LoreResult.text = tx, LoreResult.title = ti, LoreResult.type = ty, relevance = rel,
      LoreResult.url = None\<rparr>"

definition sigmar :: LoreResult where
  "sigmar = mk_result ''Sigmar'' ''deity'' ''Sigmar Heldenhammer founded the Empire.'' 0.375"

definition altdorf :: LoreResult where
  "altdorf = mk_result ''Altdorf'' ''location'' ''Altdorf is the capital of the Empire.'' 0.625"

text \<open>A second entry about Sigmar, with the same title as the first.\<close>

definition sigmar_cult :: LoreResult where
  "sigmar_cult = mk_result ''Sigmar'' ''organization'' ''The Cult of Sigmar is the state church.'' 0.7"

text \<open>An entry with a title of 100 characters and a body of 3000 characters.\<close>

definition long_entry :: LoreResult where
  "long_entry = mk_result (replicate 100 CHR ''T'') ''general'' (replicate 3000 CHR ''x'') 0.5"

text \<open>
  A collection with two documents: \<open>Altdorf\<close> (a location,
  at distance 0.375 from any query) and \<open>Sigmar\<close> (a deity, at distance 0.625). A query
  keeps the documents that match the \<open>where\<close> clause, nearest first, up to \<open>nResults\<close>.
\<close>

definition demo_docs :: "(string \<times> Metadata \<times> real) list" where
  "demo_docs =
     [(''Altdorf is the capital of the Empire.'',
       [''title'' \<mapsto> ''Altdorf'', ''type'' \<mapsto> ''location''], 0.375),
      (''Sigmar Heldenhammer founded the Empire.'',
       [''title'' \<mapsto> ''Sigmar'', ''type'' \<mapsto> ''deity''], 0.625)]"

definition demo_query :: "(string \<times> Metadata \<times> real) list \<Rightarrow> QueryOptions \<Rightarrow> QueryResponse" where
  "demo_query docs opts =
     (let hs = take (nat (nResults opts))
                 (filter (\<lambda>(tx, m, d). case where opts of
                                          None \<Rightarrow> True
                                        | Some ty \<Rightarrow> m ''type'' = Some ty) docs)
      in \<lparr>QueryResponse.documents = Some [map (\<lambda>(tx, m, d). Some tx) hs],
          QueryResponse.metadatas = Some [map (\<lambda>(tx, m, d). Some m) hs],
          distances = Some [map (\<lambda>(tx, m, d). Some d) hs]\<rparr>)"

definition demo_get :: "(string \<times> Metadata \<times> real) list \<Rightarrow> string \<Rightarrow> GetResponse" where
  "demo_get docs t =
     (let hs = filter (\<lambda>(tx, m, d). m ''title'' = Some t) docs
      in \<lparr>GetResponse.documents = Some (map (\<lambda>(tx, m, d). Some tx) hs),
          GetResponse.metadatas = Some (map (\<lambda>(tx, m, d). Some m) hs)\<rparr>)"

definition demo_collection :: Collection where
  "demo_collection =
     \<lparr>query = (\<lambda>opts. Inr (demo_query demo_docs opts)),
      get = (\<lambda>t. Inr (demo_get demo_docs t)),
      count = Inr 2\<rparr>"

definition demo_client :: ChromaClient where
  "demo_client = \<lparr>getOrCreateCollection = Inr demo_collection\<rparr>"

definition demo_embedder :: Embedder where
  "demo_embedder q = Inr [1, 0]"

text \<open>
  A rounding for the examples. It returns 1 for \<open>1 - 2^-60\<close>, as rounding to the
  nearest double does, and leaves every other number as it is.
\<close>

definition demo_round :: Rounding where
  "demo_round x = (if x = 1 - 1 / 2 ^ 60 then 1 else x)"

text \<open>The service after a successful \<open>initialize\<close> against the demo collection.\<close>

definition demo_service :: RAGService where
  "demo_service =
     \<lparr>db = \<lparr>collection = Some demo_collection, LoreDatabase.initialized = True\<rparr>,
      RAGService.initialized = True\<rparr>"





text \<open>
  A collection whose \<open>count\<close> throws, and the service after a failed \<open>initialize\<close>
  against it: the collection handle is stored, both flags are unset.
\<close>

definition flaky_collection :: Collection where
  "flaky_collection =
     \<lparr>query = (\<lambda>opts. Inr (demo_query demo_docs opts)),
      get = (\<lambda>t. Inr (demo_get demo_docs t)),
      count = Inl ''connection lost''\<rparr>"

definition flaky_client :: ChromaClient where
  "flaky_client = \<lparr>getOrCreateCollection = Inr flaky_collection\<rparr>"

definition connected_service :: RAGService where
  "connected_service =
     \<lparr>db = \<lparr>collection = Some flaky_collection, LoreDatabase.initialized = False\<rparr>,
      RAGService.initialized = False\<rparr>"

text \<open>
  A collection with a document at distance \<open>2^-60\<close> from any query, nearer than
  \<open>Altdorf\<close>; the difference \<open>1 - 2^-60\<close> is not a double and rounds to 1.
\<close>

definition near_docs :: "(string \<times> Metadata \<times> real) list" where
  "near_docs =
     [(''Karl Franz is the Emperor.'',
       [''title'' \<mapsto> ''Karl Franz'', ''type'' \<mapsto> ''character''], 1 / 2 ^ 60),
      (''Altdorf is the capital of the Empire.'',
       [''title'' \<mapsto> ''Altdorf'', ''type'' \<mapsto> ''location''], 0.375)]"

definition near_collection :: Collection where
  "near_collection =
     \<lparr>query = (\<lambda>opts. Inr (demo_query near_docs opts)),
      get = (\<lambda>t. Inr (demo_get near_docs t)),
      count = Inr 2\<rparr>"

definition near_db :: LoreDatabase where
  "near_db = \<lparr>collection = Some near_collection, LoreDatabase.initialized = True\<rparr>"

section \<open>Properties of \<open>buildContext\<close>\<close>

lemma length_header: "length header = 28"
  by (simp add: header_def nl_def)

lemma length_format_entry:
  "length (format_entry r) = 7 + length (LoreResult.title r) + length (LoreResult.text r)"
  by (simp add: format_entry_def nl_def)

lemma length_truncated_entry:
  "int (length (truncated_entry r a)) =
     10 + int (length (LoreResult.title r)) + int (min (length (LoreResult.text r)) (nat a))"
  by (simp add: truncated_entry_def nl_def)

lemma longest_title_nonneg: "0 \<le> longest_title rs"
  by (induction rs) auto

text \<open>
  The loop keeps \<open>currentLength\<close> equal to the length of \<open>contextText\<close>. Its final text
  is the text it started from, or fits the budget, or ends with a truncated entry whose
  LoreResult.title is the only part not covered by the reservation of 50.
\<close>

lemma buildContext_loop_length:
  "cl = int (length ct) \<Longrightarrow>
   int (length (fst (buildContext_loop rs m (ct, cl, ss))))
     \<le> max cl (max m (m - 40 + longest_title rs))"
proof (induction rs arbitrary: ct cl ss)
  case Nil
  then show ?case by simp
next
  case (Cons r rs)
  let ?e = "format_entry r"
  show ?case
  proof (cases "cl + int (length ?e) > m")
    case over: True
    show ?thesis
    proof (cases "m - cl - 50 > 200")
      case True
      have "int (length (ct @ truncated_entry r (m - cl - 50)))
              \<le> cl + 10 + int (length (LoreResult.title r)) + (m - cl - 50)"
        using Cons.prems True by (simp add: length_truncated_entry)
      also have "\<dots> \<le> m - 40 + longest_title (r # rs)"
        by simp
      finally show ?thesis
        using over True by (simp add: Let_def)
    next
      case False
      then show ?thesis
        using over Cons.prems by (simp add: Let_def)
    qed
  next
    case fits: False
    have inv: "cl + int (length ?e) = int (length (ct @ ?e))"
      using Cons.prems by simp
    have "int (length (fst (buildContext_loop rs m
                 (ct @ ?e, cl + int (length ?e), ss @ [LoreResult.title r]))))
            \<le> max (cl + int (length ?e)) (max m (m - 40 + longest_title rs))"
      by (rule Cons.IH [OF inv])
    also have "\<dots> \<le> max cl (max m (m - 40 + longest_title (r # rs)))"
      using fits by simp
    finally show ?thesis
      using fits by (simp add: Let_def)
  qed
qed

text \<open>The sources are the titles of a prefix of the input, in input order.\<close>

lemma buildContext_loop_sources:
  "\<exists>k. snd (buildContext_loop rs m (ct, cl, ss)) = ss @ take k (map LoreResult.title rs)"
proof (induction rs arbitrary: ct cl ss)
  case Nil
  then show ?case by simp
next
  case (Cons r rs)
  let ?e = "format_entry r"
  show ?case
  proof (cases "cl + int (length ?e) > m")
    case over: True
    show ?thesis
    proof (cases "m - cl - 50 > 200")
      case True
      have "snd (buildContext_loop (r # rs) m (ct, cl, ss))
              = ss @ take 1 (map LoreResult.title (r # rs))"
        using over True by (simp add: Let_def)
      then show ?thesis by blast
    next
      case False
      have "snd (buildContext_loop (r # rs) m (ct, cl, ss))
              = ss @ take 0 (map LoreResult.title (r # rs))"
        using over False by (simp add: Let_def)
      then show ?thesis by blast
    qed
  next
    case fits: False
    obtain k where
      "snd (buildContext_loop rs m (ct @ ?e, cl + int (length ?e), ss @ [LoreResult.title r]))
         = (ss @ [LoreResult.title r]) @ take k (map LoreResult.title rs)"
      using Cons.IH by blast
    then have "snd (buildContext_loop (r # rs) m (ct, cl, ss))
                 = ss @ take (Suc k) (map LoreResult.title (r # rs))"
      using fits by (simp add: Let_def)
    then show ?thesis by blast
  qed
qed

lemma buildContext_sources_take:
  "\<exists>k. sources (buildContext rs m) = take k (map LoreResult.title rs)"
proof (cases rs)
  case Nil
  then show ?thesis by (simp add: buildContext_def)
next
  case (Cons r rs')
  then have ne: "length rs \<noteq> 0" by simp
  obtain k where
    "snd (buildContext_loop rs m (header, int (length header), [])) = [] @ take k (map LoreResult.title rs)"
    using buildContext_loop_sources by blast
  then have "sources (buildContext rs m) = take k (map LoreResult.title rs)"
    using ne by (simp add: buildContext_def case_prod_beta)
  then show ?thesis by blast
qed

lemma buildContext_length_bound:
  "int (length (LoreContext.text (buildContext rs m)))
     \<le> max 28 (max m (m - 40 + longest_title rs))"
proof (cases rs)
  case Nil
  then show ?thesis by (simp add: buildContext_def)
next
  case (Cons r rs')
  then have ne: "length rs \<noteq> 0" by simp
  have "int (length (fst (buildContext_loop rs m (header, int (length header), []))))
          \<le> max (int (length header)) (max m (m - 40 + longest_title rs))"
    by (rule buildContext_loop_length) simp
  then show ?thesis
    using ne by (simp add: buildContext_def length_header case_prod_beta)
qed

lemma longest_title_le:
  "\<forall>r\<in>set rs. length (LoreResult.title r) \<le> n \<Longrightarrow> longest_title rs \<le> int n"
  by (induction rs) auto

lemma buildContext_loop_prefix:
  "prefix ct (fst (buildContext_loop rs m (ct, cl, ss)))"
proof (induction rs arbitrary: ct cl ss)
  case Nil
  then show ?case by simp
next
  case (Cons r rs)
  have "prefix ct (ct @ format_entry r)" by simp
  moreover have "prefix (ct @ format_entry r)
      (fst (buildContext_loop rs m
         (ct @ format_entry r, cl + int (length (format_entry r)), ss @ [LoreResult.title r])))"
    by (rule Cons.IH)
  ultimately have "prefix ct
      (fst (buildContext_loop rs m
         (ct @ format_entry r, cl + int (length (format_entry r)), ss @ [LoreResult.title r])))"
    by (rule prefix_order.trans)
  then show ?case by (simp add: Let_def)
qed

lemma buildContext_nonempty:
  "rs \<noteq> [] \<Longrightarrow>
   buildContext rs m =
     \<lparr>LoreContext.text = fst (buildContext_loop rs m (header, int (length header), [])),
      sourceCount = int (length (snd (buildContext_loop rs m (header, int (length header), [])))),
      sources = snd (buildContext_loop rs m (header, int (length header), []))\<rparr>"
  by (simp add: buildContext_def case_prod_beta)

lemma buildContext_loop_nothing_fits:
  "rs \<noteq> [] \<Longrightarrow> \<forall>r\<in>set rs. cl + int (length (format_entry r)) > m \<Longrightarrow> m - cl - 50 \<le> 200
     \<Longrightarrow> buildContext_loop rs m (ct, cl, ss) = (ct, ss)"
  by (cases rs) (simp_all add: Let_def)

text \<open>The loop computes the closed form, from any start.\<close>

lemma fits_count_le: "fits_count rs m cl \<le> length rs"
  by (induction rs arbitrary: cl) simp_all

lemma packed_from_Nil: "packed_from [] m cl = ([], [])"
  by (simp add: packed_from_def)

lemma packed_from_over:
  "cl + int (length (format_entry r)) > m \<Longrightarrow>
   packed_from (r # rs) m cl =
     (if m - cl - 50 > 200 then (truncated_entry r (m - cl - 50), [r]) else ([], []))"
  by (simp add: packed_from_def)

lemma packed_from_fits:
  "\<not> cl + int (length (format_entry r)) > m \<Longrightarrow>
   packed_from (r # rs) m cl =
     (format_entry r @ fst (packed_from rs m (cl + int (length (format_entry r)))),
      r # snd (packed_from rs m (cl + int (length (format_entry r)))))"
  by (simp add: packed_from_def Let_def add.assoc)

lemma buildContext_loop_packed:
  "buildContext_loop rs m (ct, cl, ss) =
     (ct @ fst (packed_from rs m cl), ss @ map LoreResult.title (snd (packed_from rs m cl)))"
proof (induction rs arbitrary: ct cl ss)
  case Nil
  then show ?case by (simp add: packed_from_Nil)
next
  case (Cons r rs)
  show ?case
  proof (cases "cl + int (length (format_entry r)) > m")
    case True
    then show ?thesis by (simp add: packed_from_over Let_def)
  next
    case False
    then show ?thesis by (simp add: packed_from_fits Cons.IH Let_def)
  qed
qed

lemma buildContext_packed: "buildContext rs m = packed rs m"
  by (simp add: buildContext_def packed_def appended_def buildContext_loop_packed)

section \<open>Claims about \<open>buildContext\<close>\<close>

text \<open>
  C1 (as stated): for every list of results and every \<open>maxLength\<close>, the length of the
  context text is at most \<open>maxLength\<close> plus about 3 characters, whatever the titles and
  bodies are. This fails in two ways: the header of 28 characters is emitted for any
  non-empty input, even under a budget of 0; and the truncated entry reserves 50
  characters but writes the whole title, so a title of 100 characters overshoots a
  budget of 1000 by 60.
\<close>

theorem buildContext_text_bound_counterexample:
  "int (length (LoreContext.text (buildContext [sigmar] 0))) = 28
   \<and> \<not> int (length (LoreContext.text (buildContext [sigmar] 0))) \<le> 0 + 3
   \<and> int (length (LoreContext.text (buildContext [long_entry] 1000))) = 1060
   \<and> \<not> int (length (LoreContext.text (buildContext [long_entry] 1000))) \<le> 1000 + 3"
  by (simp add: buildContext_def sigmar_def long_entry_def mk_result_def format_entry_def
      truncated_entry_def header_def nl_def Let_def)

text \<open>
  C1 (amended): for every list of results and every \<open>maxLength\<close>, the length of the
  context text is at most the largest of 28 (the header), \<open>maxLength\<close>, and
  \<open>maxLength - 40\<close> plus the length of the longest title. Hence the text stays within
  \<open>maxLength\<close> whenever \<open>maxLength\<close> is at least 28 and no title is longer than 40
  characters.
\<close>

theorem buildContext_text_bound:
  "int (length (LoreContext.text (buildContext rs m)))
     \<le> max 28 (max m (m - 40 + longest_title rs))
   \<and> (28 \<le> m \<and> (\<forall>r\<in>set rs. length (LoreResult.title r) \<le> 40)
        \<longrightarrow> int (length (LoreContext.text (buildContext rs m))) \<le> m)"
proof (intro conjI impI)
  show general: "int (length (LoreContext.text (buildContext rs m)))
      \<le> max 28 (max m (m - 40 + longest_title rs))"
    by (rule buildContext_length_bound)
  assume a: "28 \<le> m \<and> (\<forall>r\<in>set rs. length (LoreResult.title r) \<le> 40)"
  then have "longest_title rs \<le> 40"
    using longest_title_le [of rs 40] by simp
  with a general show "int (length (LoreContext.text (buildContext rs m))) \<le> m"
    by simp
qed

theorem buildContext_text_bound_witness:
  "(28::int) \<le> 100 \<and> list_all (\<lambda>r. length (LoreResult.title r) \<le> 40) [sigmar, altdorf]
   \<and> int (length (LoreContext.text (buildContext [sigmar, altdorf] 100))) \<le> 100
   \<and> LoreContext.text (buildContext [sigmar, altdorf] 100)
       = header @ format_entry sigmar"
proof -
  have h: "(28::int) \<le> 100 \<and> (\<forall>r\<in>set [sigmar, altdorf]. length (LoreResult.title r) \<le> 40)"
    by (simp add: sigmar_def altdorf_def mk_result_def)
  have "int (length (LoreContext.text (buildContext [sigmar, altdorf] 100))) \<le> 100"
    using buildContext_text_bound [of "[sigmar, altdorf]" 100] h by blast
  moreover have "LoreContext.text (buildContext [sigmar, altdorf] 100)
       = header @ format_entry sigmar"
    by (simp add: buildContext_def sigmar_def altdorf_def mk_result_def format_entry_def
        header_def nl_def Let_def)
  ultimately show ?thesis using h by simp
qed

text \<open>
  C2 (as stated): the sources of the context never contain a title twice, even when two
  appended results carry the same title. The loop pushes the title of every appended
  result without looking at the titles already recorded: two results titled
  \<open>Sigmar\<close> give the sources \<open>[Sigmar, Sigmar]\<close>.
\<close>

theorem buildContext_sources_counterexample:
  "sources (buildContext [sigmar, sigmar_cult] 2000) = [''Sigmar'', ''Sigmar'']
   \<and> \<not> distinct (sources (buildContext [sigmar, sigmar_cult] 2000))"
  by (simp add: buildContext_def sigmar_def sigmar_cult_def mk_result_def format_entry_def
      header_def nl_def Let_def)

text \<open>
  C2 (amended): the sources are the titles of the results that receive an entry in the
  text (the leading results that fit in full, and the next one when it is appended
  truncated), one per such result and in input order, and \<open>sourceCount\<close> is their
  number. Hence the sources contain no duplicate exactly when the appended results
  have pairwise distinct titles.
\<close>

theorem buildContext_sources_appended:
  "sources (buildContext rs m) = map LoreResult.title (appended rs m)
   \<and> sourceCount (buildContext rs m) = int (length (appended rs m))
   \<and> appended rs m = take (length (appended rs m)) rs
   \<and> LoreContext.text (buildContext rs m)
       = (if rs = [] then [] else header @ fst (packed_from rs m (int (length header))))
   \<and> (distinct (sources (buildContext rs m))
        \<longleftrightarrow> distinct (map LoreResult.title (appended rs m)))"
proof -
  have src: "sources (buildContext rs m) = map LoreResult.title (appended rs m)"
    by (simp add: buildContext_packed packed_def appended_def packed_from_def Let_def)
  have cnt: "sourceCount (buildContext rs m) = int (length (appended rs m))"
    by (simp add: buildContext_packed packed_def appended_def packed_from_def Let_def)
  have tk: "appended rs m = take (length (appended rs m)) rs"
    using fits_count_le [of rs m "int (length header)"]
    by (simp add: appended_def packed_from_def Let_def min_def)
  have body: "LoreContext.text (buildContext rs m)
       = (if rs = [] then [] else header @ fst (packed_from rs m (int (length header))))"
    by (simp add: buildContext_packed packed_def)
  show ?thesis
    using src cnt tk body by simp
qed

theorem buildContext_sources_appended_witness:
  "appended [sigmar, long_entry, altdorf] 1000 = [sigmar, long_entry]
   \<and> sources (buildContext [sigmar, long_entry, altdorf] 1000)
       = [''Sigmar'', replicate 100 CHR ''T'']
   \<and> sourceCount (buildContext [sigmar, long_entry, altdorf] 1000) = 2
   \<and> distinct (sources (buildContext [sigmar, long_entry, altdorf] 1000))
   \<and> appended [sigmar, sigmar_cult] 2000 = [sigmar, sigmar_cult]
   \<and> sources (buildContext [sigmar, sigmar_cult] 2000) = [''Sigmar'', ''Sigmar'']"
proof -
  have a1: "appended [sigmar, long_entry, altdorf] 1000 = [sigmar, long_entry]"
    by (simp add: appended_def packed_from_def Let_def sigmar_def long_entry_def altdorf_def
        mk_result_def format_entry_def header_def nl_def)
  have a2: "appended [sigmar, sigmar_cult] 2000 = [sigmar, sigmar_cult]"
    by (simp add: appended_def packed_from_def Let_def sigmar_def sigmar_cult_def
        mk_result_def format_entry_def header_def nl_def)
  note one = buildContext_sources_appended [of "[sigmar, long_entry, altdorf]" 1000]
  note two = buildContext_sources_appended [of "[sigmar, sigmar_cult]" 2000]
  have s1: "sources (buildContext [sigmar, long_entry, altdorf] 1000)
       = [''Sigmar'', replicate 100 CHR ''T'']"
    using one unfolding a1 by (simp add: sigmar_def long_entry_def mk_result_def)
  have c1: "sourceCount (buildContext [sigmar, long_entry, altdorf] 1000) = 2"
    using one unfolding a1 by simp
  have "length ''Sigmar'' \<noteq> length (replicate 100 CHR ''T'')"
    by simp
  then have "''Sigmar'' \<noteq> replicate 100 CHR ''T''"
    by (metis (full_types))
  then have d1: "distinct (sources (buildContext [sigmar, long_entry, altdorf] 1000))"
    unfolding s1 by simp
  have s2: "sources (buildContext [sigmar, sigmar_cult] 2000) = [''Sigmar'', ''Sigmar'']"
    using two unfolding a2 by (simp add: sigmar_def sigmar_cult_def mk_result_def)
  show ?thesis
    using a1 s1 c1 d1 a2 s2 by simp
qed

text \<open>
  C10: \<open>sourceCount\<close> is the length of \<open>sources\<close> in every context, also for the empty
  input (the empty context) and when a truncated entry is appended. For a non-empty
  input the text begins with the header; when no entry fits the budget (no entry fits
  in full after the header, and the space left is too small for a truncated entry) the
  text is exactly the header and \<open>sourceCount\<close> is 0.
\<close>

theorem buildContext_sourceCount:
  "sourceCount (buildContext rs m) = int (length (sources (buildContext rs m)))
   \<and> (rs = [] \<longrightarrow> buildContext rs m = \<lparr>LoreContext.text = [], sourceCount = 0, sources = []\<rparr>)
   \<and> (rs \<noteq> [] \<longrightarrow> prefix header (LoreContext.text (buildContext rs m)))
   \<and> (rs \<noteq> []
        \<and> (\<forall>r\<in>set rs. int (length header) + int (length (format_entry r)) > m)
        \<and> m - int (length header) - 50 \<le> 200
      \<longrightarrow> LoreContext.text (buildContext rs m) = header
          \<and> LoreContext.text (buildContext rs m) \<noteq> []
          \<and> sourceCount (buildContext rs m) = 0
          \<and> sources (buildContext rs m) = [])"
proof (intro conjI impI)
  show "sourceCount (buildContext rs m) = int (length (sources (buildContext rs m)))"
    by (cases "rs = []") (simp_all add: buildContext_def case_prod_beta)
  show "rs = [] \<Longrightarrow> buildContext rs m = \<lparr>LoreContext.text = [], sourceCount = 0, sources = []\<rparr>"
    by (simp add: buildContext_def)
  show "rs \<noteq> [] \<Longrightarrow> prefix header (LoreContext.text (buildContext rs m))"
    by (simp add: buildContext_nonempty buildContext_loop_prefix)
next
  assume a: "rs \<noteq> []
        \<and> (\<forall>r\<in>set rs. int (length header) + int (length (format_entry r)) > m)
        \<and> m - int (length header) - 50 \<le> 200"
  then have loop: "buildContext_loop rs m (header, int (length header), []) = (header, [])"
    by (intro buildContext_loop_nothing_fits) auto
  from a loop show "LoreContext.text (buildContext rs m) = header"
    by (simp add: buildContext_nonempty)
  from a loop show "LoreContext.text (buildContext rs m) \<noteq> []"
    by (simp add: buildContext_nonempty header_def)
  from a loop show "sourceCount (buildContext rs m) = 0"
    by (simp add: buildContext_nonempty)
  from a loop show "sources (buildContext rs m) = []"
    by (simp add: buildContext_nonempty)
qed

theorem buildContext_sourceCount_witness:
  "[sigmar, altdorf] \<noteq> []
   \<and> list_all (\<lambda>r. int (length header) + int (length (format_entry r)) > 60) [sigmar, altdorf]
   \<and> (60::int) - int (length header) - 50 \<le> 200
   \<and> LoreContext.text (buildContext [sigmar, altdorf] 60) = header
   \<and> sourceCount (buildContext [sigmar, altdorf] 60) = 0
   \<and> sourceCount (buildContext [long_entry] 1000) = 1
   \<and> sources (buildContext [long_entry] 1000) = [replicate 100 CHR ''T'']
   \<and> buildContext [] 60 = \<lparr>LoreContext.text = [], sourceCount = 0, sources = []\<rparr>"
proof -
  have h: "[sigmar, altdorf] \<noteq> []
     \<and> (\<forall>r\<in>set [sigmar, altdorf]. int (length header) + int (length (format_entry r)) > 60)
     \<and> (60::int) - int (length header) - 50 \<le> 200"
    by (simp add: sigmar_def altdorf_def mk_result_def format_entry_def header_def nl_def)
  have "LoreContext.text (buildContext [sigmar, altdorf] 60) = header
     \<and> sourceCount (buildContext [sigmar, altdorf] 60) = 0"
    using buildContext_sourceCount [of "[sigmar, altdorf]" 60] h by blast
  moreover have "sourceCount (buildContext [long_entry] 1000) = 1
     \<and> sources (buildContext [long_entry] 1000) = [replicate 100 CHR ''T'']"
    by (simp add: buildContext_def long_entry_def mk_result_def format_entry_def
        truncated_entry_def header_def nl_def Let_def)
  moreover have "buildContext [] 60 = \<lparr>LoreContext.text = [], sourceCount = 0, sources = []\<rparr>"
    using buildContext_sourceCount [of "[]" 60] by blast
  ultimately show ?thesis using h by simp
qed

section \<open>Search: relevance floor, order and category filter\<close>

lemma search_loop_filter:
  "search_loop rnd results minR docs i acc =
     acc @ filter (\<lambda>r. relevance r \<ge> minR)
             (map (\<lambda>(doc, j). hit_result rnd results doc j) (zip docs [i..<i + length docs]))"
proof (induction docs arbitrary: i acc)
  case Nil
  then show ?case by simp
next
  case (Cons doc docs)
  have "[i..<i + length (doc # docs)] = i # [Suc i..<Suc i + length docs]"
    by (subst upt_rec) simp
  then show ?case
    by (simp add: Cons.IH Let_def)
qed

lemma transform_results_filter:
  "transform_results rnd results minR =
     filter (\<lambda>r. relevance r \<ge> minR) (candidates rnd results)"
  by (simp add: transform_results_def candidates_def hits_def search_loop_filter
      split: option.splits)

lemma relevance_hit_result:
  "relevance (hit_result rnd results doc j) = rnd (1 - hit_distance results j)"
  by (simp add: hit_result_def Let_def)

lemma type_hit_result:
  "LoreResult.type (hit_result rnd results doc j)
     = str_or (meta_field (hit_meta results j) ''type'') ''general''"
  by (simp add: hit_result_def Let_def)

lemma num_or_Some_zero: "num_or (Some x) 0 = x"
  by (simp add: num_or_def)

lemma nearest_first_distance:
  assumes "nearest_first results" and "j < length (hits results)"
  shows "hit_distance results j = index_distances results ! j"
proof -
  obtain d0 rest where d: "distances results = Some (d0 # rest)"
    using assms(1) by (auto simp: nearest_first_def split: option.splits list.splits)
  have "d0 = map Some (index_distances results)
      \<and> length d0 = length (hits results) \<and> sorted (index_distances results)"
    using assms(1) unfolding nearest_first_def d option.case list.case .
  then have d0: "d0 = map Some (index_distances results)"
    and len: "length d0 = length (hits results)"
    by blast+
  have "length d0 = length (index_distances results)"
    by (subst d0) simp
  then have "j < length (index_distances results)"
    using len assms(2) by simp
  then have "nth_opt d0 j = Some (Some (index_distances results ! j))"
    by (subst d0) (simp add: nth_opt_def)
  then show ?thesis
    using d by (simp add: hit_distance_def nth_opt_def num_or_Some_zero)
qed

lemma nearest_first_length:
  assumes "nearest_first results"
  shows "length (index_distances results) = length (hits results)"
proof -
  obtain d0 rest where d: "distances results = Some (d0 # rest)"
    using assms by (auto simp: nearest_first_def split: option.splits list.splits)
  have "d0 = map Some (index_distances results)
      \<and> length d0 = length (hits results) \<and> sorted (index_distances results)"
    using assms unfolding nearest_first_def d option.case list.case .
  then have d0: "d0 = map Some (index_distances results)"
    and len: "length d0 = length (hits results)"
    by blast+
  have "length d0 = length (index_distances results)"
    by (subst d0) simp
  then show ?thesis using len by simp
qed

lemma nearest_first_relevances:
  assumes "nearest_first results"
  shows "map relevance (candidates rnd results)
         = map (\<lambda>x. rnd (1 - x)) (index_distances results)"
proof (rule nth_equalityI)
  show "length (map relevance (candidates rnd results))
        = length (map (\<lambda>x. rnd (1 - x)) (index_distances results))"
    using nearest_first_length [OF assms] by (simp add: candidates_def)
next
  fix i
  assume "i < length (map relevance (candidates rnd results))"
  then have i: "i < length (hits results)" by (simp add: candidates_def)
  then have "i < length (index_distances results)"
    using nearest_first_length [OF assms] by simp
  then show "map relevance (candidates rnd results) ! i
        = map (\<lambda>x. rnd (1 - x)) (index_distances results) ! i"
    using i
    by (simp add: candidates_def relevance_hit_result nearest_first_distance [OF assms])
qed

lemma transform_results_relevances:
  assumes "nearest_first results"
  shows "map relevance (transform_results rnd results minR)
         = filter (\<lambda>x. x \<ge> minR) (map (\<lambda>x. rnd (1 - x)) (index_distances results))"
proof -
  have "map relevance (transform_results rnd results minR)
        = filter (\<lambda>x. x \<ge> minR) (map relevance (candidates rnd results))"
    unfolding transform_results_filter by (simp add: filter_map comp_def)
  then show ?thesis
    by (simp only: nearest_first_relevances [OF assms])
qed

text \<open>
  Rounding to a nearest double keeps the order: of two reals, the smaller one never
  rounds to the larger double.
\<close>

lemma nearest_double_mono:
  assumes "nearest_double x (rnd x)" and "nearest_double y (rnd y)" and "x \<le> y"
  shows "rnd x \<le> rnd y"
proof (cases "x = y")
  case True
  then show ?thesis by simp
next
  case False
  then have less: "x < y" using assms(3) by simp
  have a: "\<bar>rnd x - x\<bar> \<le> \<bar>rnd y - x\<bar>"
    using assms(1,2) by (simp add: nearest_double_def)
  have b: "\<bar>rnd y - y\<bar> \<le> \<bar>rnd x - y\<bar>"
    using assms(1,2) by (simp add: nearest_double_def)
  show ?thesis
  proof (rule ccontr)
    assume "\<not> rnd x \<le> rnd y"
    then have gt: "rnd y < rnd x" by simp
    have "rnd x + rnd y \<le> 2 * x"
      using a gt by (simp add: abs_if split: if_splits)
    moreover have "2 * y \<le> rnd x + rnd y"
      using b gt by (simp add: abs_if split: if_splits)
    ultimately show False using less by simp
  qed
qed

lemma descending_relevances:
  fixes ds :: "real list"
  assumes "sorted ds"
    and "\<forall>x\<in>set ds. nearest_double (1 - x) (rnd (1 - x))"
  shows "sorted_wrt (\<lambda>a b. a \<ge> b)
           (filter (\<lambda>x. x \<ge> minR) (map (\<lambda>x. rnd (1 - x)) ds))"
proof -
  have "sorted_wrt (\<lambda>a b. rnd (1 - a) \<ge> rnd (1 - b)) ds"
    unfolding sorted_wrt_iff_nth_less
  proof (intro allI impI)
    fix i j
    assume ij: "i < j" and j: "j < length ds"
    then have "ds ! i \<le> ds ! j"
      using assms(1) by (simp add: sorted_iff_nth_mono)
    then have le: "1 - ds ! j \<le> 1 - ds ! i" by simp
    have nj: "nearest_double (1 - ds ! j) (rnd (1 - ds ! j))"
      using assms(2) j by simp
    have ni: "nearest_double (1 - ds ! i) (rnd (1 - ds ! i))"
      using assms(2) ij j by simp
    show "rnd (1 - ds ! j) \<le> rnd (1 - ds ! i)"
      using nj ni le
      by (rule nearest_double_mono [where rnd = rnd and x = "1 - ds ! j" and y = "1 - ds ! i"])
  qed
  then have "sorted_wrt (\<lambda>a b. a \<ge> b) (map (\<lambda>x. rnd (1 - x)) ds)"
    by (simp add: sorted_wrt_map)
  then show ?thesis
    by (rule sorted_wrt_filter)
qed

lemma LoreDatabase_search_value:
  assumes "collection d = Some c"
    and "embedder q = Inr v"
    and "query c (build_queryOptions v (default_to limit_opt 5) (default_to category_opt Any))
           = Inr results"
  shows "LoreDatabase_search rnd embedder d q limit_opt category_opt minRelevance_opt =
           ([EmbedCall q,
             QueryCall (build_queryOptions v (default_to limit_opt 5) (default_to category_opt Any))],
            Inr (transform_results rnd results (default_to minRelevance_opt (rnd 0.3))))"
  using assms
  by (simp add: LoreDatabase_search_def Let_def io_bind_def upstream_def io_return_def)

lemma category_str_nonempty: "category_str c \<noteq> []"
  by (cases c) simp_all

lemma honours_where_types:
  assumes "honours_where opts results" and "where opts = Some t" and "t \<noteq> []"
  shows "list_all (\<lambda>r. LoreResult.type r = t) (transform_results rnd results minR)"
proof -
  have meta: "\<And>j. j < length (hits results)
      \<Longrightarrow> meta_field (hit_meta results j) ''type'' = Some t"
    using assms(1,2) by (simp add: honours_where_def list_all_iff)
  have "\<And>p. p \<in> set (zip (hits results) [0..<length (hits results)])
      \<Longrightarrow> LoreResult.type (hit_result rnd results (fst p) (snd p)) = t"
  proof -
    fix p
    assume "p \<in> set (zip (hits results) [0..<length (hits results)])"
    then have "snd p \<in> set [0..<length (hits results)]"
      by (metis in_set_zipE prod.collapse)
    then have "snd p < length (hits results)" by simp
    then show "LoreResult.type (hit_result rnd results (fst p) (snd p)) = t"
      using assms(3) by (simp add: type_hit_result meta str_or_def)
  qed
  then show ?thesis
    unfolding transform_results_filter candidates_def by (auto simp: list_all_iff)
qed

text \<open>Doubles near 1: the largest double below 1 is \<open>1 - 2^-53\<close>.\<close>

lemma one_in_doubles: "1 \<in> doubles"
proof -
  have "(1::real) = real_of_int 1 * 2 ^ 1074 / 2 ^ 1074" by simp
  moreover have "\<bar>1::int\<bar> < 2 ^ 53" by simp
  moreover have "(1074::nat) \<le> 2045" by simp
  ultimately show ?thesis unfolding doubles_def by blast
qed

lemma five_eighths_in_doubles: "5 / 8 \<in> doubles"
proof -
  have "(2::real) ^ 1074 = 2 ^ 1071 * 2 ^ 3"
    by (simp only: power_add [symmetric]) simp
  then have "(5::real) / 8 = real_of_int 5 * 2 ^ 1071 / 2 ^ 1074" by simp
  moreover have "\<bar>5::int\<bar> < 2 ^ 53" by simp
  moreover have "(1071::nat) \<le> 2045" by simp
  ultimately show ?thesis unfolding doubles_def by blast
qed

lemma dyadic_below_one:
  fixes m :: int and k e p :: nat
  assumes m: "\<bar>m\<bar> < 2 ^ p" and p: "0 < p"
    and less: "real_of_int m * 2 ^ k / 2 ^ (e + p) < 1"
  shows "real_of_int m * 2 ^ k / 2 ^ (e + p) \<le> 1 - 1 / 2 ^ p"
proof (cases "e \<le> k")
  case True
  define N where "N = m * 2 ^ (k - e)"
  have "(2::real) ^ k = 2 ^ e * 2 ^ (k - e)"
    using True by (simp flip: power_add)
  then have eq: "real_of_int m * 2 ^ k / 2 ^ (e + p) = real_of_int N / 2 ^ p"
    by (simp add: N_def power_add)
  have "real_of_int N / 2 ^ p < 1"
    using less eq by simp
  then have "real_of_int N < 2 ^ p"
    by (simp add: divide_less_eq)
  then have "real_of_int N < real_of_int (2 ^ p)"
    by simp
  then have "N < 2 ^ p"
    by (simp only: of_int_less_iff)
  then have "N \<le> 2 ^ p - 1"
    by simp
  then have "real_of_int N \<le> real_of_int (2 ^ p - 1)"
    by (simp only: of_int_le_iff)
  then have "real_of_int N \<le> 2 ^ p - 1"
    by simp
  then have "real_of_int N / 2 ^ p \<le> (2 ^ p - 1) / 2 ^ p"
    by (simp add: divide_right_mono)
  also have "((2::real) ^ p - 1) / 2 ^ p = 1 - 1 / 2 ^ p"
    by (simp add: diff_divide_distrib)
  finally show ?thesis
    using eq by simp
next
  case False
  then have "Suc k \<le> e" by simp
  then have "(2::real) ^ Suc k \<le> 2 ^ e"
    by (intro power_increasing) simp_all
  then have ke: "(2::real) ^ k \<le> 2 ^ e / 2"
    by simp
  have "real_of_int m \<le> real_of_int (2 ^ p)"
    using m by (simp only: of_int_le_iff)
  then have mp: "real_of_int m \<le> 2 ^ p"
    by simp
  have "real_of_int m * 2 ^ k \<le> 2 ^ p * 2 ^ k"
    using mp by (simp add: mult_right_mono)
  also have "\<dots> \<le> 2 ^ p * (2 ^ e / 2)"
    using ke by (simp add: mult_left_mono)
  finally have "real_of_int m * 2 ^ k \<le> 2 ^ (e + p) / 2"
    by (simp add: power_add mult.commute)
  then have "real_of_int m * 2 ^ k / 2 ^ (e + p) \<le> (2 ^ (e + p) / 2) / 2 ^ (e + p)"
    by (simp add: divide_right_mono)
  then have half: "real_of_int m * 2 ^ k / 2 ^ (e + p) \<le> 1 / 2"
    by simp
  have "(2::real) ^ 1 \<le> 2 ^ p"
    using p by (intro power_increasing) simp_all
  then have "1 / (2::real) ^ p \<le> 1 / 2"
    by (simp add: divide_simps)
  then show ?thesis
    using half by linarith
qed

lemma doubles_below_one:
  assumes "z \<in> doubles" and "z < 1"
  shows "z \<le> 1 - 1 / 2 ^ 53"
proof -
  obtain m :: int and k :: nat
    where z: "z = real_of_int m * 2 ^ k / 2 ^ 1074" and m: "\<bar>m\<bar> < 2 ^ 53"
    using assms(1) unfolding doubles_def by blast
  have e: "(1074::nat) = 1021 + 53" by simp
  have "real_of_int m * 2 ^ k / 2 ^ (1021 + 53) < 1"
    using assms(2) unfolding z e .
  then have "real_of_int m * 2 ^ k / 2 ^ (1021 + 53) \<le> 1 - 1 / 2 ^ 53"
    using m by (intro dyadic_below_one) simp_all
  then show ?thesis
    unfolding z e .
qed

lemma nearest_double_one: "nearest_double (1 - 1 / 2 ^ 60) 1"
  unfolding nearest_double_def
proof (intro conjI ballI)
  show "1 \<in> doubles" by (rule one_in_doubles)
next
  fix z :: real
  assume z: "z \<in> doubles"
  show "\<bar>1 - (1 - 1 / 2 ^ 60)\<bar> \<le> \<bar>z - (1 - 1 / 2 ^ 60)\<bar>"
  proof (cases "z < 1")
    case True
    then have "z \<le> 1 - 1 / 2 ^ 53"
      using z by (rule doubles_below_one [rotated])
    then show ?thesis by simp
  next
    case False
    then show ?thesis by simp
  qed
qed

lemma nearest_double_self: "x \<in> doubles \<Longrightarrow> nearest_double x x"
  by (simp add: nearest_double_def)

text \<open>
  C5: on an initialized database whose index answers nearest first (one distance per
  hit, in non-decreasing order), \<open>search\<close> returns the candidates whose relevance is at
  least \<open>minRelevance\<close> (the double \<open>0.3\<close> when absent), in the order of the index. Their
  relevances are the doubles \<open>1 - d\<close> of the index distances, as the subtraction of
  doubles rounds them, that reach the floor; since the subtraction is correctly rounded,
  the list is ordered by non-increasing relevance.
\<close>

theorem search_relevance_order:
  assumes "collection d = Some c"
    and "embedder q = Inr v"
    and "query c (build_queryOptions v (default_to limit_opt 5) (default_to category_opt Any))
           = Inr results"
    and "nearest_first results"
    and "\<forall>x\<in>set (index_distances results). nearest_double (1 - x) (rnd (1 - x))"
  shows "snd (LoreDatabase_search rnd embedder d q limit_opt category_opt minRelevance_opt)
           = Inr (transform_results rnd results (default_to minRelevance_opt (rnd 0.3)))
         \<and> transform_results rnd results (default_to minRelevance_opt (rnd 0.3))
             = filter (\<lambda>r. relevance r \<ge> default_to minRelevance_opt (rnd 0.3))
                 (candidates rnd results)
         \<and> list_all (\<lambda>r. relevance r \<ge> default_to minRelevance_opt (rnd 0.3))
             (transform_results rnd results (default_to minRelevance_opt (rnd 0.3)))
         \<and> map relevance (transform_results rnd results (default_to minRelevance_opt (rnd 0.3)))
             = filter (\<lambda>x. x \<ge> default_to minRelevance_opt (rnd 0.3))
                 (map (\<lambda>x. rnd (1 - x)) (index_distances results))
         \<and> sorted_wrt (\<lambda>a b. a \<ge> b)
             (map relevance
                (transform_results rnd results (default_to minRelevance_opt (rnd 0.3))))"
proof (intro conjI)
  let ?m = "default_to minRelevance_opt (rnd 0.3)"
  show "snd (LoreDatabase_search rnd embedder d q limit_opt category_opt minRelevance_opt)
          = Inr (transform_results rnd results ?m)"
    using assms(1,2,3) by (simp add: LoreDatabase_search_value)
  show "transform_results rnd results ?m
          = filter (\<lambda>r. relevance r \<ge> ?m) (candidates rnd results)"
    by (rule transform_results_filter)
  show "list_all (\<lambda>r. relevance r \<ge> ?m) (transform_results rnd results ?m)"
    unfolding transform_results_filter by (simp add: list_all_iff)
  show rel: "map relevance (transform_results rnd results ?m)
          = filter (\<lambda>x. x \<ge> ?m) (map (\<lambda>x. rnd (1 - x)) (index_distances results))"
    by (rule transform_results_relevances [OF assms(4)])
  have "sorted (index_distances results)"
    using assms(4) by (auto simp: nearest_first_def split: option.splits list.splits)
  then show "sorted_wrt (\<lambda>a b. a \<ge> b) (map relevance (transform_results rnd results ?m))"
    unfolding rel using assms(5) by (rule descending_relevances)
qed

theorem search_relevance_order_witness:
  "collection near_db = Some near_collection
   \<and> nearest_first (demo_query near_docs (build_queryOptions [1, 0] 5 Any))
   \<and> index_distances (demo_query near_docs (build_queryOptions [1, 0] 5 Any))
       = [1 / 2 ^ 60, 3 / 8]
   \<and> nearest_double (1 - 1 / 2 ^ 60) (demo_round (1 - 1 / 2 ^ 60))
   \<and> nearest_double (1 - 3 / 8) (demo_round (1 - 3 / 8))
   \<and> map relevance
       (transform_results demo_round (demo_query near_docs (build_queryOptions [1, 0] 5 Any)) 1)
       = [1]
   \<and> sorted_wrt (\<lambda>a b. a \<ge> b)
       (map relevance
          (transform_results demo_round (demo_query near_docs (build_queryOptions [1, 0] 5 Any)) 1))
   \<and> snd (LoreDatabase_search demo_round demo_embedder near_db ''the Emperor'' None None (Some 1))
       = Inr (transform_results demo_round
                (demo_query near_docs (build_queryOptions [1, 0] 5 Any)) 1)"
proof -
  let ?results = "demo_query near_docs (build_queryOptions [1, 0] 5 Any)"
  have coll: "collection near_db = Some near_collection"
    by (simp add: near_db_def)
  have emb: "demo_embedder ''the Emperor'' = Inr [1, 0]"
    by (simp add: demo_embedder_def)
  have q: "query near_collection
             (build_queryOptions [1, 0] (default_to None 5) (default_to None Any)) = Inr ?results"
    by (simp add: default_to_def near_collection_def)
  have dist: "index_distances ?results = [1 / 2 ^ 60, 3 / 8]"
    by (simp add: index_distances_def demo_query_def near_docs_def build_queryOptions_def)
  have hs: "length (hits ?results) = 2"
    by (simp add: hits_def nth_opt_def demo_query_def near_docs_def build_queryOptions_def)
  have nf: "nearest_first ?results"
    unfolding nearest_first_def dist hs
    by (simp add: demo_query_def near_docs_def build_queryOptions_def)
  have r1: "demo_round (1 - 1 / 2 ^ 60) = 1"
    by (simp add: demo_round_def)
  have r2: "demo_round (1 - 3 / 8) = 5 / 8"
    by (simp add: demo_round_def)
  have n1: "nearest_double (1 - 1 / 2 ^ 60) (demo_round (1 - 1 / 2 ^ 60))"
    unfolding r1 by (rule nearest_double_one)
  have "nearest_double (5 / 8) (5 / 8)"
    using five_eighths_in_doubles by (rule nearest_double_self)
  then have n2: "nearest_double (1 - 3 / 8) (demo_round (1 - 3 / 8))"
    unfolding r2 by simp
  have rounded: "\<forall>x\<in>set (index_distances ?results). nearest_double (1 - x) (demo_round (1 - x))"
    unfolding dist using n1 n2 by simp
  note inst = search_relevance_order [where rnd = demo_round and embedder = demo_embedder
      and q = "''the Emperor''" and limit_opt = None and category_opt = None
      and minRelevance_opt = "Some 1", OF coll emb q nf rounded]
  have "map relevance
          (transform_results demo_round ?results (default_to (Some 1) (demo_round 0.3)))
        = filter (\<lambda>x. x \<ge> default_to (Some 1) (demo_round 0.3))
            (map (\<lambda>x. demo_round (1 - x)) (index_distances ?results))"
    using inst by blast
  then have kept: "map relevance (transform_results demo_round ?results 1) = [1]"
    unfolding dist by (simp add: default_to_def demo_round_def)
  have srt: "sorted_wrt (\<lambda>a b. a \<ge> b)
      (map relevance (transform_results demo_round ?results 1))"
    unfolding kept by simp
  have "LoreDatabase_search demo_round demo_embedder near_db ''the Emperor'' None None (Some 1)
        = ([EmbedCall ''the Emperor'', QueryCall (build_queryOptions [1, 0] 5 Any)],
           Inr (transform_results demo_round ?results (default_to (Some 1) (demo_round 0.3))))"
    using LoreDatabase_search_value [where rnd = demo_round and embedder = demo_embedder
        and q = "''the Emperor''" and limit_opt = None and category_opt = None
        and minRelevance_opt = "Some 1", OF coll emb q]
    by (simp add: default_to_def)
  then have run: "snd (LoreDatabase_search demo_round demo_embedder near_db ''the Emperor''
               None None (Some 1))
        = Inr (transform_results demo_round ?results 1)"
    by (simp add: default_to_def)
  show ?thesis
    using coll nf dist n1 n2 kept srt run by (intro conjI) assumption+
qed

text \<open>
  C6: for a search with a category other than \<open>any\<close>, the query sent to the index
  carries the clause \<open>where: { type: category }\<close>; if the index honours exact-equality
  filters, every returned result has the requested category as its \<open>type\<close>, so a
  document of another category is never returned.
\<close>

theorem search_category_filter:
  assumes "collection d = Some c"
    and "cat \<noteq> Any"
    and "embedder q = Inr v"
    and "\<forall>opts res. query c opts = Inr res \<longrightarrow> honours_where opts res"
    and "query c (build_queryOptions v (default_to limit_opt 5) cat) = Inr results"
  shows "where (build_queryOptions v (default_to limit_opt 5) cat)
           = Some (category_str cat)
         \<and> LoreDatabase_search rnd embedder d q limit_opt (Some cat) minRelevance_opt
           = ([EmbedCall q, QueryCall (build_queryOptions v (default_to limit_opt 5) cat)],
              Inr (transform_results rnd results (default_to minRelevance_opt (rnd 0.3))))
         \<and> list_all (\<lambda>r. LoreResult.type r = category_str cat)
             (transform_results rnd results (default_to minRelevance_opt (rnd 0.3)))"
proof (intro conjI)
  let ?opts = "build_queryOptions v (default_to limit_opt 5) cat"
  show w: "where ?opts = Some (category_str cat)"
    using assms(2) by (simp add: build_queryOptions_def)
  have "query c (build_queryOptions v (default_to limit_opt 5) (default_to (Some cat) Any))
          = Inr results"
    using assms(5) by (simp add: default_to_def)
  then have "LoreDatabase_search rnd embedder d q limit_opt (Some cat) minRelevance_opt
          = ([EmbedCall q,
              QueryCall (build_queryOptions v (default_to limit_opt 5)
                (default_to (Some cat) Any))],
             Inr (transform_results rnd results (default_to minRelevance_opt (rnd 0.3))))"
    using assms(1,3) by (simp add: LoreDatabase_search_value)
  then show "LoreDatabase_search rnd embedder d q limit_opt (Some cat) minRelevance_opt
          = ([EmbedCall q, QueryCall ?opts],
             Inr (transform_results rnd results (default_to minRelevance_opt (rnd 0.3))))"
    by (simp add: default_to_def)
  have "honours_where ?opts results"
    using assms(4,5) by blast
  then show "list_all (\<lambda>r. LoreResult.type r = category_str cat)
      (transform_results rnd results (default_to minRelevance_opt (rnd 0.3)))"
    using w category_str_nonempty by (rule honours_where_types)
qed

lemma demo_query_honours: "honours_where opts (demo_query docs opts)"
proof (cases "where opts")
  case None
  then show ?thesis by (simp add: honours_where_def)
next
  case (Some t)
  let ?hs = "take (nat (nResults opts)) (filter (\<lambda>(tx, m, d). m ''type'' = Some t) docs)"
  have hits: "hits (demo_query docs opts) = map (\<lambda>(tx, m, d). Some tx) ?hs"
    using Some by (simp add: hits_def demo_query_def nth_opt_def Let_def)
  have meta: "\<And>i. i < length ?hs \<Longrightarrow>
      hit_meta (demo_query docs opts) i = Some (fst (snd (?hs ! i)))"
    using Some by (simp add: hit_meta_def demo_query_def nth_opt_def case_prod_beta Let_def)
  have "\<And>i. i < length ?hs \<Longrightarrow> fst (snd (?hs ! i)) ''type'' = Some t"
  proof -
    fix i
    assume "i < length ?hs"
    then have "?hs ! i \<in> set ?hs" by (rule nth_mem)
    then have "?hs ! i \<in> set (filter (\<lambda>(tx, m, d). m ''type'' = Some t) docs)"
      by (rule in_set_takeD)
    then show "fst (snd (?hs ! i)) ''type'' = Some t"
      by (auto simp: case_prod_beta)
  qed
  then show ?thesis
    using Some by (simp add: honours_where_def hits list_all_iff meta meta_field_def)
qed

theorem search_category_filter_witness:
  "collection (db demo_service) = Some demo_collection
   \<and> where (build_queryOptions [1, 0] 5 Location) = Some ''location''
   \<and> map LoreResult.title
       (transform_results demo_round
          (demo_query demo_docs (build_queryOptions [1, 0] 5 Location)) (demo_round 0.3))
       = [''Altdorf'']
   \<and> list_all (\<lambda>r. LoreResult.type r = ''location'')
       (transform_results demo_round
          (demo_query demo_docs (build_queryOptions [1, 0] 5 Location)) (demo_round 0.3))
   \<and> snd (LoreDatabase_search demo_round demo_embedder (db demo_service) ''capital city'' None
            (Some Location) None)
       = Inr (transform_results demo_round
                (demo_query demo_docs (build_queryOptions [1, 0] 5 Location)) (demo_round 0.3))"
proof -
  let ?results = "demo_query demo_docs (build_queryOptions [1, 0] 5 Location)"
  have coll: "collection (db demo_service) = Some demo_collection"
    by (simp add: demo_service_def)
  have cat: "Location \<noteq> Any" by simp
  have emb: "demo_embedder ''capital city'' = Inr [1, 0]"
    by (simp add: demo_embedder_def)
  have contract: "\<forall>opts res. query demo_collection opts = Inr res \<longrightarrow> honours_where opts res"
    by (auto simp: demo_collection_def demo_query_honours)
  have q: "query demo_collection (build_queryOptions [1, 0] (default_to None 5) Location)
             = Inr ?results"
    by (simp add: default_to_def demo_collection_def)
  note inst = search_category_filter [where rnd = demo_round and embedder = demo_embedder
      and q = "''capital city''" and limit_opt = None and minRelevance_opt = None,
      OF coll cat emb contract q]
  have titles: "map LoreResult.title (transform_results demo_round ?results (demo_round 0.3))
      = [''Altdorf'']"
    by (simp add: transform_results_def demo_query_def demo_docs_def build_queryOptions_def
        nth_opt_def hit_result_def hit_meta_def hit_distance_def num_or_def str_or_def
        str_or_undefined_def meta_field_def Let_def demo_round_def)
  show ?thesis
    using inst coll titles by (simp add: default_to_def)
qed

section \<open>Entity lookup and situational context\<close>

lemma nth_opt_0: "nth_opt rs 0 = (case rs of [] \<Rightarrow> None | r # rest \<Rightarrow> Some r)"
  by (cases rs) (simp_all add: nth_opt_def)

lemma first_document_Some_iff:
  "first_document g = Some doc
     \<longleftrightarrow> (\<exists>ds. GetResponse.documents g = Some (Some doc # ds)) \<and> doc \<noteq> []"
proof (cases "GetResponse.documents g")
  case None
  then show ?thesis by (simp add: first_document_def str_or_undefined_def)
next
  case (Some ds)
  then show ?thesis
    by (cases ds)
      (auto simp: first_document_def str_or_undefined_def nth_opt_def split: option.splits)
qed

lemma RAGService_getByTitle_value:
  assumes "RAGService.initialized s" and "collection (db s) = Some c" and "get c t = Inr g"
  shows "RAGService_getByTitle s t =
           ([GetCall t],
            Inr (case first_document g of
                   None \<Rightarrow> None
                 | Some doc \<Rightarrow>
                     (let meta = (case GetResponse.metadatas g of
                                    None \<Rightarrow> None
                                  | Some ms \<Rightarrow>
                                      (case nth_opt ms 0 of None \<Rightarrow> None | Some m \<Rightarrow> m))
                      in Some \<lparr>LoreResult.text = doc,
                               LoreResult.title = str_or (meta_field meta ''title'') t,
                               LoreResult.type = str_or (meta_field meta ''type'') ''general'',
                               relevance = 1,
                               LoreResult.url = str_or_undefined (meta_field meta ''url'')\<rparr>)))"
  using assms
  by (simp add: RAGService_getByTitle_def LoreDatabase_getByTitle_def io_bind_def upstream_def
      io_return_def Let_def split: option.splits)

lemma RAGService_search_value:
  assumes "RAGService.initialized s" and "collection (db s) = Some c"
    and "embedder q = Inr v"
    and "query c (build_queryOptions v (default_to (limit options) 5)
                    (default_to (category options) Any)) = Inr results"
  shows "RAGService_search rnd embedder s q options =
           ([EmbedCall q,
             QueryCall (build_queryOptions v (default_to (limit options) 5)
                          (default_to (category options) Any))],
            Inr (transform_results rnd results (default_to (minRelevance options) (rnd 0.3))))"
  using assms
  by (simp add: RAGService_search_def Let_def LoreDatabase_search_value default_to_def)

text \<open>
  C3: on a ready service, \<open>lookupEntity\<close> first asks the index for the exact title. When
  that lookup yields a document, the document is returned with relevance 1 and the
  title lookup is the only call made: neither the embedding model nor the semantic query
  is invoked. Only when the lookup yields nothing does it embed the name and run one
  semantic query with \<open>nResults = 1\<close> (floor: the double 0.3; the given category or \<open>any\<close>), and it
  returns the first result of that search, or nothing when the search has no result.
\<close>

theorem lookupEntity_exact_then_semantic:
  assumes "RAGService.initialized s"
    and "collection (db s) = Some c"
    and "get c name = Inr g"
  shows "(first_document g = Some doc \<longrightarrow>
            (\<exists>r. lookupEntity rnd embedder s name cat = ([GetCall name], Inr (Some r))
                 \<and> relevance r = 1 \<and> LoreResult.text r = doc))
         \<and> (first_document g = None \<and> embedder name = Inr v
              \<and> query c (build_queryOptions v 1 (default_to cat Any)) = Inr results \<longrightarrow>
            lookupEntity rnd embedder s name cat =
              ([GetCall name, EmbedCall name,
                QueryCall (build_queryOptions v 1 (default_to cat Any))],
               Inr (case transform_results rnd results (rnd 0.3) of
                      [] \<Rightarrow> None
                    | r # rest \<Rightarrow> Some r))
            \<and> nResults (build_queryOptions v 1 (default_to cat Any)) = 1)"
proof (intro conjI impI)
  assume "first_document g = Some doc"
  then show "\<exists>r. lookupEntity rnd embedder s name cat = ([GetCall name], Inr (Some r))
      \<and> relevance r = 1 \<and> LoreResult.text r = doc"
    using assms
    by (simp add: lookupEntity_def RAGService_getByTitle_value io_bind_def io_return_def Let_def)
next
  assume a: "first_document g = None \<and> embedder name = Inr v
      \<and> query c (build_queryOptions v 1 (default_to cat Any)) = Inr results"
  let ?options = "(case cat of
                     Some c \<Rightarrow> no_options\<lparr>limit := Some 1, category := Some c\<rparr>
                   | None \<Rightarrow> no_options\<lparr>limit := Some 1\<rparr>)"
  have lim: "default_to (limit ?options) 5 = 1"
    and ca: "default_to (category ?options) Any = default_to cat Any"
    and mr: "default_to (minRelevance ?options) (rnd 0.3) = rnd 0.3"
    by (simp_all add: default_to_def no_options_def split: option.splits)
  have "RAGService_search rnd embedder s name ?options =
          ([EmbedCall name, QueryCall (build_queryOptions v 1 (default_to cat Any))],
           Inr (transform_results rnd results (rnd 0.3)))"
    using RAGService_search_value [where options = ?options and rnd = rnd and embedder = embedder
        and q = name and v = v and results = results, OF assms(1,2)] a
    unfolding lim ca mr by simp
  then show "lookupEntity rnd embedder s name cat =
              ([GetCall name, EmbedCall name,
                QueryCall (build_queryOptions v 1 (default_to cat Any))],
               Inr (case transform_results rnd results (rnd 0.3) of
                      [] \<Rightarrow> None
                    | r # rest \<Rightarrow> Some r))"
    using a assms
    by (simp add: lookupEntity_def RAGService_getByTitle_value io_bind_def io_return_def
        Let_def nth_opt_0 split: option.splits)
  show "nResults (build_queryOptions v 1 (default_to cat Any)) = 1"
    by (simp add: build_queryOptions_def Let_def)
qed


lemma demo_transform_any:
  "transform_results demo_round (demo_query demo_docs (build_queryOptions [1, 0] 5 Any)) m
     = filter (\<lambda>r. relevance r \<ge> m) [altdorf, sigmar]"
  by (simp add: transform_results_def demo_query_def demo_docs_def build_queryOptions_def
      nth_opt_def hit_result_def hit_meta_def hit_distance_def num_or_def str_or_def
      str_or_undefined_def meta_field_def Let_def altdorf_def sigmar_def mk_result_def
      demo_round_def)

lemma demo_transform_any_quarter:
  "transform_results demo_round (demo_query demo_docs (build_queryOptions [1, 0] 5 Any)) (1 / 4)
     = [altdorf, sigmar]"
  by (simp add: demo_transform_any altdorf_def sigmar_def mk_result_def)

lemma demo_transform_one:
  "transform_results demo_round (demo_query demo_docs (build_queryOptions [1, 0] 1 Any)) m
     = filter (\<lambda>r. relevance r \<ge> m) [altdorf]"
  by (simp add: transform_results_def demo_query_def demo_docs_def build_queryOptions_def
      nth_opt_def hit_result_def hit_meta_def hit_distance_def num_or_def str_or_def
      str_or_undefined_def meta_field_def Let_def altdorf_def mk_result_def
      demo_round_def)

theorem lookupEntity_exact_then_semantic_witness:
  "first_document (demo_get demo_docs ''Altdorf'') = Some ''Altdorf is the capital of the Empire.''
   \<and> (\<exists>r. lookupEntity demo_round demo_embedder demo_service ''Altdorf'' None
              = ([GetCall ''Altdorf''], Inr (Some r))
            \<and> relevance r = 1
            \<and> LoreResult.text r = ''Altdorf is the capital of the Empire.'')
   \<and> first_document (demo_get demo_docs ''Altdorff'') = None
   \<and> lookupEntity demo_round demo_embedder demo_service ''Altdorff'' None
       = ([GetCall ''Altdorff'', EmbedCall ''Altdorff'',
           QueryCall (build_queryOptions [1, 0] 1 Any)],
          Inr (Some altdorf))"
proof -
  have init: "RAGService.initialized demo_service"
    and coll: "collection (db demo_service) = Some demo_collection"
    by (simp_all add: demo_service_def)
  have g1: "get demo_collection ''Altdorf'' = Inr (demo_get demo_docs ''Altdorf'')"
    and g2: "get demo_collection ''Altdorff'' = Inr (demo_get demo_docs ''Altdorff'')"
    by (simp_all add: demo_collection_def)
  have d1: "first_document (demo_get demo_docs ''Altdorf'')
              = Some ''Altdorf is the capital of the Empire.''"
    by (simp add: first_document_def demo_get_def demo_docs_def nth_opt_def
        str_or_undefined_def)
  have d2: "first_document (demo_get demo_docs ''Altdorff'') = None"
    by (simp add: first_document_def demo_get_def demo_docs_def nth_opt_def
        str_or_undefined_def)
  have emb: "demo_embedder ''Altdorff'' = Inr [1, 0]"
    by (simp add: demo_embedder_def)
  have q: "query demo_collection (build_queryOptions [1, 0] 1 (default_to None Any))
             = Inr (demo_query demo_docs (build_queryOptions [1, 0] 1 Any))"
    by (simp add: demo_collection_def default_to_def)
  note exact = lookupEntity_exact_then_semantic [where rnd = demo_round and embedder = demo_embedder
      and name = "''Altdorf''" and cat = None, OF init coll g1]
  note fallback = lookupEntity_exact_then_semantic [where rnd = demo_round and embedder = demo_embedder
      and name = "''Altdorff''" and cat = None and v = "[1, 0]"
      and results = "demo_query demo_docs (build_queryOptions [1, 0] 1 Any)", OF init coll g2]
  have one: "\<exists>r. lookupEntity demo_round demo_embedder demo_service ''Altdorf'' None
              = ([GetCall ''Altdorf''], Inr (Some r))
            \<and> relevance r = 1
            \<and> LoreResult.text r = ''Altdorf is the capital of the Empire.''"
    using exact d1 by blast
  have two: "lookupEntity demo_round demo_embedder demo_service ''Altdorff'' None
       = ([GetCall ''Altdorff'', EmbedCall ''Altdorff'',
           QueryCall (build_queryOptions [1, 0] 1 Any)],
          Inr (Some altdorf))"
    using fallback d2 emb q
    by (simp add: default_to_def demo_transform_one altdorf_def mk_result_def demo_round_def)
  show ?thesis
    using d1 one d2 two by blast
qed

lemma join_Cons: "join sep (x # xs) = x @ concat (map (\<lambda>e. sep @ e) xs)"
  by (induction xs arbitrary: x) simp_all

lemma build_queryOptions_Any:
  "build_queryOptions v n Any =
     \<lparr>queryEmbeddings = [v], nResults = n,
      include = [IncludeEnum.documents, IncludeEnum.metadatas, IncludeEnum.distances],
      where = None\<rparr>"
  by (simp add: build_queryOptions_def)

text \<open>
  C7: on a ready service, \<open>getContextForSituation\<close> embeds one composite query, the
  situation followed by each entity name in input order with a single space before each
  name; it sends the index one query that carries this embedding, \<open>nResults = 5\<close> and no
  category filter; it keeps the candidates of relevance at least 0.25, in index order,
  and returns them packed under a budget of 3000: the header, the entries that fit in
  full, and a truncated entry for the next one if more than 200 characters remain.
\<close>

theorem getContextForSituation_composite_query:
  assumes "RAGService.initialized s"
    and "collection (db s) = Some c"
    and "embedder (situation @ concat (map (\<lambda>e. '' '' @ e) entities)) = Inr v"
    and "query c
           \<lparr>queryEmbeddings = [v], nResults = 5,
            include = [IncludeEnum.documents, IncludeEnum.metadatas, IncludeEnum.distances],
            where = None\<rparr> = Inr results"
  shows "getContextForSituation rnd embedder s situation entities =
           ([EmbedCall (situation @ concat (map (\<lambda>e. '' '' @ e) entities)),
             QueryCall
               \<lparr>queryEmbeddings = [v], nResults = 5,
                include = [IncludeEnum.documents, IncludeEnum.metadatas, IncludeEnum.distances],
                where = None\<rparr>],
            Inr (packed (filter (\<lambda>r. relevance r \<ge> 0.25) (candidates rnd results)) 3000))"
proof -
  let ?q = "situation @ concat (map (\<lambda>e. '' '' @ e) entities)"
  let ?options = "no_options\<lparr>limit := Some 5, minRelevance := Some 0.25\<rparr>"
  have lim: "default_to (limit ?options) 5 = 5"
    and ca: "default_to (category ?options) Any = Any"
    and mr: "default_to (minRelevance ?options) (rnd 0.3) = 0.25"
    by (simp_all add: default_to_def no_options_def)
  have q: "query c (build_queryOptions v 5 Any) = Inr results"
    using assms(4) by (simp only: build_queryOptions_Any)
  have "RAGService_search rnd embedder s ?q ?options =
          ([EmbedCall ?q, QueryCall (build_queryOptions v 5 Any)],
           Inr (transform_results rnd results 0.25))"
    using RAGService_search_value [where options = ?options and rnd = rnd and embedder = embedder
        and q = ?q and v = v and results = results, OF assms(1,2)] assms(3) q
    unfolding lim ca mr by simp
  then have "getContextForSituation rnd embedder s situation entities =
           ([EmbedCall ?q, QueryCall (build_queryOptions v 5 Any)],
            Inr (buildContext (transform_results rnd results 0.25) 3000))"
    by (simp add: getContextForSituation_def join_Cons io_bind_def io_return_def Let_def)
  then show ?thesis
    by (simp only: build_queryOptions_Any buildContext_packed transform_results_filter)
qed

theorem getContextForSituation_composite_query_witness:
  "getContextForSituation demo_round demo_embedder demo_service ''siege of''
       [''Altdorf'', ''Sigmar'']
     = ([EmbedCall ''siege of Altdorf Sigmar'',
         QueryCall
           \<lparr>queryEmbeddings = [[1, 0]], nResults = 5,
            include = [IncludeEnum.documents, IncludeEnum.metadatas, IncludeEnum.distances],
            where = None\<rparr>],
        Inr \<lparr>LoreContext.text =
               ''## Relevant Warhammer Lore'' @ nl @ nl
               @ ''### Altdorf'' @ nl @ ''Altdorf is the capital of the Empire.'' @ nl @ nl
               @ ''### Sigmar'' @ nl @ ''Sigmar Heldenhammer founded the Empire.'' @ nl @ nl,
             sourceCount = 2,
             sources = [''Altdorf'', ''Sigmar'']\<rparr>)"
proof -
  let ?opts = "\<lparr>queryEmbeddings = [[1, 0]], nResults = 5,
      include = [IncludeEnum.documents, IncludeEnum.metadatas, IncludeEnum.distances],
      where = None\<rparr>"
  have init: "RAGService.initialized demo_service"
    and coll: "collection (db demo_service) = Some demo_collection"
    by (simp_all add: demo_service_def)
  have emb: "demo_embedder (''siege of'' @ concat (map (\<lambda>e. '' '' @ e) [''Altdorf'', ''Sigmar'']))
               = Inr [1, 0]"
    by (simp add: demo_embedder_def)
  have q: "query demo_collection ?opts = Inr (demo_query demo_docs ?opts)"
    by (simp add: demo_collection_def)
  note inst = getContextForSituation_composite_query [where rnd = demo_round
      and embedder = demo_embedder and situation = "''siege of''"
      and entities = "[''Altdorf'', ''Sigmar'']", OF init coll emb q]
  have cand: "candidates demo_round (demo_query demo_docs ?opts) = [altdorf, sigmar]"
    by (simp add: candidates_def hits_def demo_query_def demo_docs_def nth_opt_def
        hit_result_def hit_meta_def hit_distance_def num_or_def str_or_def
        str_or_undefined_def meta_field_def Let_def altdorf_def sigmar_def mk_result_def
        demo_round_def)
  have keep: "filter (\<lambda>r. relevance r \<ge> 0.25) [altdorf, sigmar] = [altdorf, sigmar]"
    by (simp add: altdorf_def sigmar_def mk_result_def)
  have pk: "packed [altdorf, sigmar] 3000 =
      \<lparr>LoreContext.text =
               ''## Relevant Warhammer Lore'' @ nl @ nl
               @ ''### Altdorf'' @ nl @ ''Altdorf is the capital of the Empire.'' @ nl @ nl
               @ ''### Sigmar'' @ nl @ ''Sigmar Heldenhammer founded the Empire.'' @ nl @ nl,
             sourceCount = 2,
             sources = [''Altdorf'', ''Sigmar'']\<rparr>"
    by (simp add: packed_def appended_def packed_from_def Let_def altdorf_def sigmar_def
        mk_result_def format_entry_def header_def nl_def)
  have "getContextForSituation demo_round demo_embedder demo_service ''siege of''
       [''Altdorf'', ''Sigmar'']
     = ([EmbedCall (''siege of'' @ concat (map (\<lambda>e. '' '' @ e) [''Altdorf'', ''Sigmar''])),
         QueryCall ?opts],
        Inr (packed [altdorf, sigmar] 3000))"
    using inst unfolding cand keep .
  then show ?thesis
    unfolding pk by simp
qed

section \<open>The initialization guard\<close>

lemma reachable_flags:
  "reachable s \<Longrightarrow>
     (RAGService.initialized s \<longrightarrow> LoreDatabase.initialized (db s))
     \<and> (LoreDatabase.initialized (db s) \<longrightarrow> collection (db s) \<noteq> None)"
  by (induction rule: reachable.induct) (auto simp: new_RAGService_def new_LoreDatabase_def)

lemma reachable_ready_iff:
  "reachable s \<Longrightarrow> isReady s = RAGService.initialized s"
  using reachable_flags [of s] by (auto simp: isReady_def LoreDatabase_isInitialized_def)

lemma RAGService_initialize_reachable:
  assumes "reachable s"
  shows "reachable (snd (RAGService_initialize client s))"
proof (cases "RAGService.initialized s")
  case True
  then show ?thesis using assms by (simp add: RAGService_initialize_def)
next
  case off: False
  show ?thesis
  proof (cases "LoreDatabase.initialized (db s)")
    case True
    have "reachable (s\<lparr>RAGService.initialized := True\<rparr>)"
      using assms True by (rule reachable.ready)
    then show ?thesis
      using off True by (simp add: RAGService_initialize_def LoreDatabase_initialize_def)
  next
    case dboff: False
    show ?thesis
    proof (cases "getOrCreateCollection client")
      case (Inl msg)
      then show ?thesis
        using off dboff assms
        by (simp add: RAGService_initialize_def LoreDatabase_initialize_def)
    next
      case (Inr c)
      let ?s1 = "s\<lparr>db := (db s)\<lparr>collection := Some c\<rparr>\<rparr>"
      have r1: "reachable ?s1"
        using assms dboff by (rule reachable.connected)
      show ?thesis
      proof (cases "count c")
        case (Inl msg)
        then show ?thesis
          using off dboff Inr r1
          by (simp add: RAGService_initialize_def LoreDatabase_initialize_def)
      next
        case cnt: (Inr n)
        let ?s2 = "?s1\<lparr>db := (db ?s1)\<lparr>LoreDatabase.initialized := True\<rparr>\<rparr>"
        have r2: "reachable ?s2"
          using r1 by (rule reachable.counted) simp
        have "reachable (?s2\<lparr>RAGService.initialized := True\<rparr>)"
          using r2 by (rule reachable.ready) simp
        then show ?thesis
          using off dboff Inr cnt
          by (simp add: RAGService_initialize_def LoreDatabase_initialize_def)
      qed
    qed
  qed
qed

lemma RAGService_initialize_success:
  "fst (RAGService_initialize client s) = Inr () \<Longrightarrow>
     RAGService.initialized (snd (RAGService_initialize client s))"
  by (auto simp: RAGService_initialize_def split: if_splits prod.splits sum.splits)

lemma io_bind_rejected:
  assumes "\<not> rejected m" and "\<And>x. \<not> rejected (f x)"
  shows "\<not> rejected (io_bind m f)"
proof (cases m)
  case (Pair t r)
  show ?thesis
  proof (cases r)
    case (Inl e)
    then have "snd (io_bind m f) = Inl e" and "snd m = Inl e"
      using Pair by (simp_all add: io_bind_def)
    then show ?thesis using assms(1) by (simp add: rejected_def)
  next
    case (Inr x)
    then have "snd (io_bind m f) = snd (f x)"
      using Pair by (simp add: io_bind_def split: prod.splits)
    then show ?thesis using assms(2) [of x] by (simp add: rejected_def)
  qed
qed

lemma upstream_not_rejected: "\<not> rejected (upstream c reply)"
  by (auto simp: upstream_def rejected_def split: sum.splits)

lemma io_return_not_rejected: "\<not> rejected (io_return x)"
  by (simp add: io_return_def rejected_def)

lemma LoreDatabase_search_accepted:
  "collection d \<noteq> None \<Longrightarrow> \<not> rejected (LoreDatabase_search rnd embedder d q l c m)"
proof -
  assume "collection d \<noteq> None"
  then obtain h where "collection d = Some h" by auto
  then show ?thesis
    by (simp add: LoreDatabase_search_def Let_def io_bind_rejected upstream_not_rejected
        io_return_not_rejected)
qed

lemma LoreDatabase_getByTitle_accepted:
  "collection d \<noteq> None \<Longrightarrow> \<not> rejected (LoreDatabase_getByTitle d t)"
proof -
  assume "collection d \<noteq> None"
  then obtain h where "collection d = Some h" by auto
  then show ?thesis
    by (simp add: LoreDatabase_getByTitle_def Let_def io_bind_rejected upstream_not_rejected
        io_return_not_rejected split: option.splits)
qed

lemma RAGService_search_accepted:
  "RAGService.initialized s \<Longrightarrow> collection (db s) \<noteq> None
     \<Longrightarrow> \<not> rejected (RAGService_search rnd embedder s q options)"
  by (simp add: RAGService_search_def Let_def LoreDatabase_search_accepted)

lemma RAGService_getByTitle_accepted:
  "RAGService.initialized s \<Longrightarrow> collection (db s) \<noteq> None
     \<Longrightarrow> \<not> rejected (RAGService_getByTitle s t)"
  by (simp add: RAGService_getByTitle_def LoreDatabase_getByTitle_accepted)

lemma lookupEntity_accepted:
  "RAGService.initialized s \<Longrightarrow> collection (db s) \<noteq> None
     \<Longrightarrow> \<not> rejected (lookupEntity rnd embedder s name cat)"
  by (simp add: lookupEntity_def Let_def io_bind_rejected RAGService_getByTitle_accepted
      RAGService_search_accepted io_return_not_rejected split: option.splits)

text \<open>
  C8 (as stated): every query operation made while the pair is not ready fails at once
  with a not-initialized error. The operations of the service do; the repository's own
  \<open>search\<close> does not. Its guard tests the collection handle, and \<open>initialize\<close> stores
  the handle before it reads the count. After an \<open>initialize\<close> that fails at the
  count, the pair is not ready and the repository is not initialized, yet its
  \<open>search\<close> embeds the query, asks the index and returns the results.
\<close>

theorem not_ready_repository_counterexample:
  "RAGService_initialize flaky_client new_RAGService
     = (Inl (UpstreamError ''connection lost''), connected_service)
   \<and> reachable connected_service
   \<and> \<not> isReady connected_service
   \<and> \<not> LoreDatabase_isInitialized (db connected_service)
   \<and> LoreDatabase_search demo_round demo_embedder (db connected_service) ''capital city''
         None None None
       = ([EmbedCall ''capital city'', QueryCall (build_queryOptions [1, 0] 5 Any)],
          Inr [altdorf, sigmar])
   \<and> \<not> rejected (LoreDatabase_search demo_round demo_embedder (db connected_service)
         ''capital city'' None None None)"
proof -
  have init: "RAGService_initialize flaky_client new_RAGService
     = (Inl (UpstreamError ''connection lost''), connected_service)"
    by (simp add: RAGService_initialize_def LoreDatabase_initialize_def new_RAGService_def
        new_LoreDatabase_def flaky_client_def flaky_collection_def connected_service_def)
  have "reachable (snd (RAGService_initialize flaky_client new_RAGService))"
    using reachable.new by (rule RAGService_initialize_reachable)
  then have reach: "reachable connected_service"
    by (simp add: init)
  have cold: "\<not> isReady connected_service"
    and dbcold: "\<not> LoreDatabase_isInitialized (db connected_service)"
    by (simp_all add: isReady_def LoreDatabase_isInitialized_def connected_service_def)
  have coll: "collection (db connected_service) = Some flaky_collection"
    by (simp add: connected_service_def)
  have emb: "demo_embedder ''capital city'' = Inr [1, 0]"
    by (simp add: demo_embedder_def)
  have q: "query flaky_collection
             (build_queryOptions [1, 0] (default_to None 5) (default_to None Any))
           = Inr (demo_query demo_docs (build_queryOptions [1, 0] 5 Any))"
    by (simp add: flaky_collection_def default_to_def)
  have floor: "transform_results demo_round
                 (demo_query demo_docs (build_queryOptions [1, 0] 5 Any)) (demo_round 0.3)
               = [altdorf, sigmar]"
    by (simp add: demo_transform_any demo_round_def altdorf_def sigmar_def mk_result_def)
  have run: "LoreDatabase_search demo_round demo_embedder (db connected_service) ''capital city''
         None None None
       = ([EmbedCall ''capital city'', QueryCall (build_queryOptions [1, 0] 5 Any)],
          Inr [altdorf, sigmar])"
    using LoreDatabase_search_value [where rnd = demo_round and embedder = demo_embedder
        and q = "''capital city''" and limit_opt = None and category_opt = None
        and minRelevance_opt = None, OF coll emb q]
    unfolding default_to_def option.case floor .
  then have acc: "\<not> rejected (LoreDatabase_search demo_round demo_embedder
         (db connected_service) ''capital city'' None None None)"
    by (simp add: rejected_def)
  show ?thesis
    using init reach cold dbcold run acc by (intro conjI) assumption+
qed

text \<open>
  C8 (amended): in every state the service and its repository can reach, also in the
  middle of an initialization, a \<open>search\<close>, \<open>getByTitle\<close> or \<open>lookupEntity\<close> of the
  service made while the pair is not ready fails at once with the error
  \<open>RAG Service not initialized\<close>, before any call to the embedding model or the index;
  in a ready state none of them is rejected with a not-initialized error; and a
  successful \<open>initialize\<close> leads to a ready state. The repository's own \<open>search\<close> and
  \<open>getByTitle\<close> fail at once with \<open>Database not initialized\<close> as long as the
  repository holds no collection handle, which is the case until \<open>initialize\<close> has
  obtained one.
\<close>

theorem not_ready_fails_fast:
  assumes "reachable s"
  shows "(\<not> isReady s \<longrightarrow>
            RAGService_search rnd embedder s q options = ([], Inl service_not_initialized)
            \<and> RAGService_getByTitle s t = ([], Inl service_not_initialized)
            \<and> lookupEntity rnd embedder s name cat = ([], Inl service_not_initialized))
         \<and> (isReady s \<longrightarrow>
            \<not> rejected (RAGService_search rnd embedder s q options)
            \<and> \<not> rejected (RAGService_getByTitle s t)
            \<and> \<not> rejected (lookupEntity rnd embedder s name cat))
         \<and> (fst (RAGService_initialize client s) = Inr () \<longrightarrow>
            isReady (snd (RAGService_initialize client s))
            \<and> reachable (snd (RAGService_initialize client s)))
         \<and> (collection (db s) = None \<longrightarrow>
            LoreDatabase_search rnd embedder (db s) q l c m = ([], Inl db_not_initialized)
            \<and> LoreDatabase_getByTitle (db s) t = ([], Inl db_not_initialized))"
proof (intro conjI impI)
  assume "\<not> isReady s"
  then have off: "\<not> RAGService.initialized s"
    using assms by (simp add: reachable_ready_iff)
  show "RAGService_search rnd embedder s q options = ([], Inl service_not_initialized)"
    using off by (simp add: RAGService_search_def io_throw_def)
  show "RAGService_getByTitle s t = ([], Inl service_not_initialized)"
    using off by (simp add: RAGService_getByTitle_def io_throw_def)
  show "lookupEntity rnd embedder s name cat = ([], Inl service_not_initialized)"
    using off by (simp add: lookupEntity_def RAGService_getByTitle_def io_throw_def io_bind_def)
next
  assume "isReady s"
  then have on: "RAGService.initialized s" and coll: "collection (db s) \<noteq> None"
    using assms reachable_flags [of s] by (auto simp: isReady_def)
  show "\<not> rejected (RAGService_search rnd embedder s q options)"
    using on coll by (rule RAGService_search_accepted)
  show "\<not> rejected (RAGService_getByTitle s t)"
    using on coll by (rule RAGService_getByTitle_accepted)
  show "\<not> rejected (lookupEntity rnd embedder s name cat)"
    using on coll by (rule lookupEntity_accepted)
next
  assume ok: "fst (RAGService_initialize client s) = Inr ()"
  show r: "reachable (snd (RAGService_initialize client s))"
    using assms by (rule RAGService_initialize_reachable)
  show "isReady (snd (RAGService_initialize client s))"
    using ok r by (simp add: reachable_ready_iff RAGService_initialize_success)
next
  assume none: "collection (db s) = None"
  show "LoreDatabase_search rnd embedder (db s) q l c m = ([], Inl db_not_initialized)"
    using none by (simp add: LoreDatabase_search_def io_throw_def)
  show "LoreDatabase_getByTitle (db s) t = ([], Inl db_not_initialized)"
    using none by (simp add: LoreDatabase_getByTitle_def io_throw_def)
qed

theorem not_ready_fails_fast_witness:
  "\<not> isReady new_RAGService
   \<and> RAGService_search demo_round demo_embedder new_RAGService ''capital city'' no_options
       = ([], Inl (NotInitialized ''RAG Service not initialized''))
   \<and> RAGService_getByTitle new_RAGService ''Altdorf''
       = ([], Inl (NotInitialized ''RAG Service not initialized''))
   \<and> lookupEntity demo_round demo_embedder new_RAGService ''Altdorf'' None
       = ([], Inl (NotInitialized ''RAG Service not initialized''))
   \<and> RAGService_initialize demo_client new_RAGService = (Inr (), demo_service)
   \<and> isReady demo_service
   \<and> \<not> rejected (RAGService_search demo_round demo_embedder demo_service ''capital city'' no_options)
   \<and> collection (db new_RAGService) = None
   \<and> LoreDatabase_search demo_round demo_embedder (db new_RAGService) ''capital city'' None None None
       = ([], Inl (NotInitialized ''Database not initialized. Call initialize() first.''))"
proof -
  have init: "RAGService_initialize demo_client new_RAGService = (Inr (), demo_service)"
    by (simp add: RAGService_initialize_def LoreDatabase_initialize_def new_RAGService_def
        new_LoreDatabase_def demo_client_def demo_collection_def demo_service_def)
  have cold: "\<not> isReady new_RAGService"
    by (simp add: isReady_def new_RAGService_def)
  have nocoll: "collection (db new_RAGService) = None"
    by (simp add: new_RAGService_def new_LoreDatabase_def)
  note fresh = not_ready_fails_fast [OF reachable.new, where rnd = demo_round and embedder = demo_embedder
      and q = "''capital city''" and options = no_options and t = "''Altdorf''"
      and name = "''Altdorf''" and cat = None and client = demo_client
      and l = None and c = None and m = None]
  have ready: "isReady demo_service \<and> reachable demo_service"
    using fresh init by simp
  then have "\<not> rejected (RAGService_search demo_round demo_embedder demo_service ''capital city'' no_options)"
    using not_ready_fails_fast [where s = demo_service and embedder = demo_embedder
        and q = "''capital city''" and options = no_options]
    by blast
  then show ?thesis
    using fresh cold init ready nocoll
    by (simp add: service_not_initialized_def db_not_initialized_def)
qed

section \<open>The \<open>warhammer_context\<close> tool and its \<open>maxLength\<close> argument\<close>

lemma handleRAGTool_warhammer_context_maxLength:
  "handleRAGTool_warhammer_context rnd embedder s situation entities_arg maxLength_arg
     = handleRAGTool_warhammer_context rnd embedder s situation entities_arg None"
  by (simp add: handleRAGTool_warhammer_context_def)

text \<open>
  C4: the tool reads \<open>maxLength\<close> (default 2000) but never passes it on:
  \<open>getContextForSituation\<close> always packs with a budget of 3000. With \<open>maxLength = 100\<close>
  and the two demo documents, the response carries a context text of 131 characters,
  the same as for any other \<open>maxLength\<close>.
\<close>

theorem warhammer_context_ignores_maxLength:
  "snd (handleRAGTool_warhammer_context demo_round demo_embedder demo_service ''siege'' None (Some 100))
     = formatResponse
         (LoreContext.text (buildContext [altdorf, sigmar] 3000) @ nl @ ''---'' @ nl
            @ ''*Sources: Altdorf, Sigmar*'')
   \<and> int (length (LoreContext.text (buildContext [altdorf, sigmar] 3000))) = 131
   \<and> \<not> int (length (LoreContext.text (buildContext [altdorf, sigmar] 3000))) \<le> 100
   \<and> handleRAGTool_warhammer_context demo_round demo_embedder demo_service ''siege'' None (Some 100)
       = handleRAGTool_warhammer_context demo_round demo_embedder demo_service ''siege'' None (Some 3000)"
proof -
  have init: "RAGService.initialized demo_service"
    and coll: "collection (db demo_service) = Some demo_collection"
    by (simp_all add: demo_service_def)
  have emb: "demo_embedder (''siege'' @ concat (map (\<lambda>e. '' '' @ e) [])) = Inr [1, 0]"
    by (simp add: demo_embedder_def)
  have q: "query demo_collection (build_queryOptions [1, 0] 5 Any)
             = Inr (demo_query demo_docs (build_queryOptions [1, 0] 5 Any))"
    by (simp add: demo_collection_def)
  have ctx: "getContextForSituation demo_round demo_embedder demo_service ''siege'' []
        = ([EmbedCall ''siege'', QueryCall (build_queryOptions [1, 0] 5 Any)],
           Inr (buildContext [altdorf, sigmar] 3000))"
    using RAGService_search_value [where rnd = demo_round and embedder = demo_embedder and q = "''siege''"
        and options = "no_options\<lparr>limit := Some 5, minRelevance := Some 0.25\<rparr>"
        and v = "[1, 0]"
        and results = "demo_query demo_docs (build_queryOptions [1, 0] 5 Any)", OF init coll]
      q
    by (simp add: getContextForSituation_def io_bind_def io_return_def Let_def
        demo_embedder_def default_to_def no_options_def demo_transform_any_quarter)
  have bc: "buildContext [altdorf, sigmar] 3000
        = \<lparr>LoreContext.text = header @ format_entry altdorf @ format_entry sigmar,
           sourceCount = 2, sources = [''Altdorf'', ''Sigmar'']\<rparr>"
    by (simp add: buildContext_def sigmar_def altdorf_def mk_result_def format_entry_def
        header_def nl_def Let_def)
  have len: "int (length (LoreContext.text (buildContext [altdorf, sigmar] 3000))) = 131"
    unfolding bc
    by (simp add: sigmar_def altdorf_def mk_result_def format_entry_def header_def nl_def)
  have resp: "snd (handleRAGTool_warhammer_context demo_round demo_embedder demo_service ''siege'' None
                (Some 100))
     = formatResponse
         (LoreContext.text (buildContext [altdorf, sigmar] 3000) @ nl @ ''---'' @ nl
            @ ''*Sources: Altdorf, Sigmar*'')"
    unfolding handleRAGTool_warhammer_context_def
    by (simp add: ctx default_to_def bc)
  have same: "handleRAGTool_warhammer_context demo_round demo_embedder demo_service ''siege'' None (Some 100)
       = handleRAGTool_warhammer_context demo_round demo_embedder demo_service ''siege'' None (Some 3000)"
    by (simp add: handleRAGTool_warhammer_context_def)
  show ?thesis
    using resp len same by simp
qed


section \<open>Ingestion\<close>











end
